theory Spec2Isabelle
  imports Complex_Main
begin

section \<open>Python and NumPy values\<close>

text \<open>
  The finite element space of \<^verbatim>\<open>fespace2d.py\<close> and the spectral basis of
  \<^verbatim>\<open>basis_2d_QN_Chebyshev_2.py\<close> are embedded as HOL functions. \<^verbatim>\<open>float64\<close>
  numbers are modelled by \<^typ>\<open>real\<close>: every statement below is about which terms
  are combined, and in which order, never about rounding. An exception that the
  Python code raises is a value \<open>Inl e\<close> of the result type.
\<close>

datatype error =
    ValueError string
  | IndexError
  | KeyError int

definition bind_err :: "error + 'a \<Rightarrow> ('a \<Rightarrow> error + 'b) \<Rightarrow> error + 'b" where
  "bind_err m f = (case m of Inl e \<Rightarrow> Inl e | Inr v \<Rightarrow> f v)"

text \<open>\<^verbatim>\<open>str(n)\<close> for a non-negative integer, as an f-string formats it.\<close>

fun str_nat :: "nat \<Rightarrow> string" where
  "str_nat n =
     (if n < 10 then [char_of (48 + n)]
      else str_nat (n div 10) @ [char_of (48 + n mod 10)])"

text \<open>
  \<^verbatim>\<open>xs[i]\<close> on a Python list: a negative index counts from the end, and an index
  outside \<open>[-len, len)\<close> raises \<^verbatim>\<open>IndexError\<close>. \<open>list_index\<close> is the position
  that is read or written.
\<close>

definition list_index :: "'a list \<Rightarrow> int \<Rightarrow> int" where
  "list_index xs i = (if i < 0 then int (length xs) + i else i)"

definition list_getitem :: "'a list \<Rightarrow> int \<Rightarrow> error + 'a" where
  "list_getitem xs i =
     (if 0 \<le> list_index xs i \<and> list_index xs i < int (length xs)
      then Inr (xs ! nat (list_index xs i))
      else Inl IndexError)"

text \<open>
  A two-dimensional \<^verbatim>\<open>numpy.ndarray\<close>: its \<^verbatim>\<open>shape\<close> and its entries by
  (row, column). Only entries inside the shape are entries of the array.
\<close>

record ndarray2 =
  shape :: "nat \<times> nat"
  entry :: "nat \<Rightarrow> nat \<Rightarrow> real"

text \<open>\<^verbatim>\<open>np.zeros((r, c))\<close>, \<^verbatim>\<open>a[i, j]\<close> and \<^verbatim>\<open>a[i] = v\<close> for non-negative indices.\<close>

definition zeros :: "nat \<times> nat \<Rightarrow> ndarray2" where
  "zeros s = \<lparr>shape = s, entry = (\<lambda>i j. 0)\<rparr>"

definition getitem2 :: "ndarray2 \<Rightarrow> nat \<Rightarrow> nat \<Rightarrow> error + real" where
  "getitem2 a i j =
     (if i < fst (shape a) \<and> j < snd (shape a) then Inr (entry a i j) else Inl IndexError)"

definition setitem_row :: "ndarray2 \<Rightarrow> nat \<Rightarrow> real \<Rightarrow> error + ndarray2" where
  "setitem_row a i v =
     (if i < fst (shape a)
      then Inr (a\<lparr>entry := (\<lambda>r c. if r = i then v else entry a r c)\<rparr>)
      else Inl IndexError)"

section \<open>The cell record and the finite element space\<close>

text \<open>
  The class \<^verbatim>\<open>FE2D_Cell\<close> belongs to the module \<^verbatim>\<open>FE2D_Cell.py\<close>, which is not embedded
  here; the record holds the attributes of a cell object that \<^verbatim>\<open>Fespace2D\<close> reads
  or writes. Attributes that
  are only printed (\<^verbatim>\<open>jacobian\<close>, \<^verbatim>\<open>quad_xi\<close>, \<^verbatim>\<open>quad_weight\<close>) are left out.
\<close>

record basis_function_2d =
  num_shape_functions :: nat

record fe2d_cell =
  cell_coordinates :: ndarray2
  basis_function :: basis_function_2d
  basis_at_quad :: ndarray2
  basis_gradx_at_quad :: ndarray2
  basis_grady_at_quad :: ndarray2
  basis_gradx_at_quad_ref :: ndarray2
  basis_grady_at_quad_ref :: ndarray2
  quad_actual_coordinates :: ndarray2
  mult :: ndarray2
  forcing_at_quad :: ndarray2
  forcing_function :: "real \<Rightarrow> real \<Rightarrow> real"

record fe_config =
  cell_type :: string
  fe_order :: int
  fe_type :: string
  quad_order :: int
  quad_type :: string
  fe_transformation_type :: string

text \<open>
  The state of a \<^verbatim>\<open>Fespace2D\<close> object. \<^verbatim>\<open>boundary_points\<close> is a Python dict,
  iterated in insertion order: an association list from the boundary tag to the
  points of that tag. \<^verbatim>\<open>dirichlet_boundary_data\<close> does not exist before the
  constructor assigns it. \<^verbatim>\<open>cells\<close> holds the vertex coordinates of each cell;
  \<^verbatim>\<open>sp_forcing_function\<close> is the attribute \<^verbatim>\<open>forcing_function\<close> of the space (the
  cell has an attribute of the same name). Attributes that are stored and never
  read (\<^verbatim>\<open>mesh\<close>, \<^verbatim>\<open>bound_condition_dict\<close>, \<^verbatim>\<open>output_path\<close>) are left out.
\<close>

record fespace2d =
  cells :: "ndarray2 list"
  config :: fe_config
  sp_forcing_function :: "real \<Rightarrow> real \<Rightarrow> real"
  boundary_points :: "(int \<times> (real \<times> real) list) list"
  bound_function_dict :: "int \<rightharpoonup> (real \<Rightarrow> real \<Rightarrow> real)"
  generate_mesh_plot :: bool
  total_dofs :: nat
  total_boundary_dofs :: nat
  total_dirichlet_dofs :: nat
  n_cells :: nat
  fe_cell :: "fe2d_cell list"
  dirichlet_boundary_data :: "((real \<times> real) list \<times> real list) option"

section \<open>Per-cell accessors\<close>

text \<open>
  Every accessor starts with the same guard,
  \<^verbatim>\<open>if cell_index > self.n_cells: raise ValueError(f"cell_index should be less than {self.n_cells}")\<close>,
  and then indexes the Python list \<^verbatim>\<open>self.fe_cell\<close>. \<^verbatim>\<open>.copy()\<close> returns an equal
  array. The accessor \<^verbatim>\<open>get_forcing_function_values_vector\<close> of vector-valued
  problems has the same guard; its forcing function returns a sequence of
  components, which the scalar forcing function of this model does not, and it
  is left out.
\<close>

definition cell_index_error :: "fespace2d \<Rightarrow> error" where
  "cell_index_error sp = ValueError (''cell_index should be less than '' @ str_nat (n_cells sp))"








text \<open>
  \<^verbatim>\<open>get_forcing_function_values\<close>: the inner loop over the quadrature points
  \<^verbatim>\<open>q\<close> (reading \<^verbatim>\<open>x\<close>, \<^verbatim>\<open>y\<close> and then \<^verbatim>\<open>basis_at_quad[i, q]\<close>), the outer loop
  over the shape functions \<^verbatim>\<open>i\<close>, and the assignment of the result to the cell.
  The new state is returned beside the array; when an exception is raised the
  object is as it was.
\<close>

fun forcing_inner :: "fe2d_cell \<Rightarrow> nat \<Rightarrow> nat list \<Rightarrow> real \<Rightarrow> error + real" where
  "forcing_inner cell i [] val = Inr val"
| "forcing_inner cell i (q # qs) val =
     bind_err (getitem2 (quad_actual_coordinates cell) q 0) (\<lambda>x.
     bind_err (getitem2 (quad_actual_coordinates cell) q 1) (\<lambda>y.
     bind_err (getitem2 (basis_at_quad cell) i q) (\<lambda>b.
       forcing_inner cell i qs (val + b * forcing_function cell x y))))"

fun forcing_outer :: "fe2d_cell \<Rightarrow> nat list \<Rightarrow> ndarray2 \<Rightarrow> error + ndarray2" where
  "forcing_outer cell [] f_integral = Inr f_integral"
| "forcing_outer cell (i # is) f_integral =
     bind_err (forcing_inner cell i [0..<snd (shape (basis_at_quad cell))] 0) (\<lambda>val.
     bind_err (setitem_row f_integral i val) (\<lambda>f_integral'.
       forcing_outer cell is f_integral'))"

definition get_forcing_function_values :: "fespace2d \<Rightarrow> int \<Rightarrow> error + (ndarray2 \<times> fespace2d)" where
  "get_forcing_function_values sp cell_index =
     (if cell_index > int (n_cells sp) then Inl (cell_index_error sp)
      else bind_err (list_getitem (fe_cell sp) cell_index) (\<lambda>cell.
        let n_shape_functions = num_shape_functions (basis_function cell) in
        bind_err (forcing_outer cell [0..<n_shape_functions] (zeros (n_shape_functions, 1)))
          (\<lambda>f_integral.
             Inr (f_integral,
                  sp\<lparr>fe_cell := (fe_cell sp)[nat (list_index (fe_cell sp) cell_index) :=
                                   cell\<lparr>forcing_at_quad := f_integral\<rparr>]\<rparr>))))"




section \<open>Construction of the space\<close>

text \<open>
  \<^verbatim>\<open>set_finite_elements\<close> builds one cell object per mesh cell and adds up the
  second dimension of every \<^verbatim>\<open>basis_at_quad\<close>. The constructor of the class
  \<^verbatim>\<open>FE2D_Cell\<close>, which is not embedded, is the parameter \<open>FE2D_Cell\<close>. After
  the loop the shapes of cell 0 are read for a table, which raises \<^verbatim>\<open>IndexError\<close>
  on a mesh without cells.
\<close>

type_synonym cell_constructor =
  "ndarray2 \<Rightarrow> fe_config \<Rightarrow> (real \<Rightarrow> real \<Rightarrow> real) \<Rightarrow> error + fe2d_cell"

fun set_finite_elements_loop ::
  "cell_constructor \<Rightarrow> fespace2d \<Rightarrow> nat list \<Rightarrow> fe2d_cell list \<times> nat \<Rightarrow> error + (fe2d_cell list \<times> nat)" where
  "set_finite_elements_loop FE2D_Cell sp [] (fe, dof) = Inr (fe, dof)"
| "set_finite_elements_loop FE2D_Cell sp (i # rest) (fe, dof) =
     bind_err (list_getitem (cells sp) (int i)) (\<lambda>coords.
     bind_err (FE2D_Cell coords (config sp) (sp_forcing_function sp)) (\<lambda>cell.
     bind_err (list_getitem (fe @ [cell]) (int i)) (\<lambda>c.
       set_finite_elements_loop FE2D_Cell sp rest
         (fe @ [cell], dof + snd (shape (basis_at_quad c))))))"

definition set_finite_elements :: "cell_constructor \<Rightarrow> fespace2d \<Rightarrow> error + fespace2d" where
  "set_finite_elements FE2D_Cell sp =
     bind_err (set_finite_elements_loop FE2D_Cell sp [0..<n_cells sp] (fe_cell sp, 0))
       (\<lambda>(fe, dof).
          bind_err (list_getitem fe 0) (\<lambda>cell0.
            Inr (sp\<lparr>fe_cell := fe, total_dofs := dof\<rparr>)))"

text \<open>
  \<^verbatim>\<open>generate_plot\<close> runs only when \<^verbatim>\<open>generate_mesh_plot\<close> is set. Drawing and
  the files it writes are outside the model; what remains are the two counters
  it assigns and its index errors: \<^verbatim>\<open>a[:, j]\<close> needs column \<open>j\<close>, \<^verbatim>\<open>x[0]\<close> needs a
  first element, and \<^verbatim>\<open>marker_list\<close> has 16 entries.
\<close>

definition column :: "ndarray2 \<Rightarrow> nat \<Rightarrow> error + real list" where
  "column a j =
     (if j < snd (shape a) then Inr (map (\<lambda>i. entry a i j) [0..<fst (shape a)])
      else Inl IndexError)"

fun plot_cells :: "fe2d_cell list \<Rightarrow> nat list \<Rightarrow> nat \<Rightarrow> error + nat" where
  "plot_cells fe [] total_quad = Inr total_quad"
| "plot_cells fe (i # rest) total_quad =
     bind_err (list_getitem fe (int i)) (\<lambda>cell.
     bind_err (column (cell_coordinates cell) 0) (\<lambda>x.
     bind_err (column (cell_coordinates cell) 1) (\<lambda>y.
       if x = [] then Inl IndexError
       else
         bind_err (column (quad_actual_coordinates cell) 0) (\<lambda>x_quad.
         bind_err (column (quad_actual_coordinates cell) 1) (\<lambda>y_quad.
           plot_cells fe rest (total_quad + length x_quad))))))"

fun plot_boundary :: "(int \<times> (real \<times> real) list) list \<Rightarrow> nat \<Rightarrow> nat \<Rightarrow> error + nat" where
  "plot_boundary [] i bound_dof = Inr bound_dof"
| "plot_boundary ((bound_id, bound_pts) # rest) i bound_dof =
     (if bound_pts = [] then Inl IndexError
      else if 16 \<le> i + 1 then Inl IndexError
      else plot_boundary rest (i + 1) (bound_dof + (length bound_pts + 1)))"

definition generate_plot :: "fespace2d \<Rightarrow> error + fespace2d" where
  "generate_plot sp =
     bind_err (plot_cells (fe_cell sp) [0..<n_cells sp] 0) (\<lambda>total_quad.
     bind_err (plot_boundary (boundary_points sp) 0 0) (\<lambda>bound_dof.
       Inr (sp\<lparr>total_dofs := total_quad, total_boundary_dofs := bound_dof\<rparr>)))"

text \<open>
  \<^verbatim>\<open>generate_dirichlet_boundary_data\<close>: for every tag of \<^verbatim>\<open>boundary_points\<close> and
  every point of the tag, the point is appended to \<^verbatim>\<open>x\<close> and the value of
  \<^verbatim>\<open>self.bound_function_dict[bound_id]\<close> at the point to \<^verbatim>\<open>y\<close> (as a \<open>1 \<times> 1\<close>
  array, here its one entry). The dictionary is indexed inside the loop over the
  points; a missing key raises \<^verbatim>\<open>KeyError\<close>. Boundary functions are total here.
\<close>

fun dirichlet_points ::
  "(int \<rightharpoonup> (real \<Rightarrow> real \<Rightarrow> real)) \<Rightarrow> int \<Rightarrow> (real \<times> real) list \<Rightarrow>
   (real \<times> real) list \<times> real list \<Rightarrow> error + ((real \<times> real) list \<times> real list)" where
  "dirichlet_points d bound_id [] (x, y) = Inr (x, y)"
| "dirichlet_points d bound_id (pt # pts) (x, y) =
     (case d bound_id of
        None \<Rightarrow> Inl (KeyError bound_id)
      | Some f \<Rightarrow> dirichlet_points d bound_id pts (x @ [pt], y @ [f (fst pt) (snd pt)]))"

fun dirichlet_tags ::
  "(int \<rightharpoonup> (real \<Rightarrow> real \<Rightarrow> real)) \<Rightarrow> (int \<times> (real \<times> real) list) list \<Rightarrow>
   (real \<times> real) list \<times> real list \<Rightarrow> error + ((real \<times> real) list \<times> real list)" where
  "dirichlet_tags d [] acc = Inr acc"
| "dirichlet_tags d ((bound_id, bound_pts) # rest) acc =
     bind_err (dirichlet_points d bound_id bound_pts acc) (dirichlet_tags d rest)"

definition generate_dirichlet_boundary_data ::
  "fespace2d \<Rightarrow> error + (((real \<times> real) list \<times> real list) \<times> fespace2d)" where
  "generate_dirichlet_boundary_data sp =
     bind_err (dirichlet_tags (bound_function_dict sp) (boundary_points sp) ([], []))
       (\<lambda>(x, y). Inr ((x, y), sp\<lparr>total_dirichlet_dofs := length x\<rparr>))"

text \<open>
  The constructor \<^verbatim>\<open>Fespace2D.__init__\<close>: the triangle check, the counters set to
  zero, \<^verbatim>\<open>n_cells = cells.shape[0]\<close>, the cells, the optional plot and the
  boundary data. The tables it prints are not modelled.
\<close>

definition Fespace2D ::
  "cell_constructor \<Rightarrow> ndarray2 list \<Rightarrow> (int \<times> (real \<times> real) list) list \<Rightarrow> fe_config \<Rightarrow>
   (int \<rightharpoonup> (real \<Rightarrow> real \<Rightarrow> real)) \<Rightarrow> (real \<Rightarrow> real \<Rightarrow> real) \<Rightarrow> bool \<Rightarrow> error + fespace2d" where
  "Fespace2D FE2D_Cell cs bps cfg bfd forcing plot =
     (if cell_type cfg = ''triangle'' then Inl (ValueError ''Triangle Mesh is not supported yet'')
      else
        bind_err (set_finite_elements FE2D_Cell
            \<lparr>cells = cs, config = cfg, sp_forcing_function = forcing, boundary_points = bps,
             bound_function_dict = bfd, generate_mesh_plot = plot, total_dofs = 0,
             total_boundary_dofs = 0, total_dirichlet_dofs = 0, n_cells = length cs,
             fe_cell = [], dirichlet_boundary_data = None\<rparr>) (\<lambda>sp1.
        bind_err (if generate_mesh_plot sp1 then generate_plot sp1 else Inr sp1) (\<lambda>sp2.
        bind_err (generate_dirichlet_boundary_data sp2) (\<lambda>(data, sp3).
          Inr (sp3\<lparr>dirichlet_boundary_data := Some data\<rparr>)))))"

section \<open>The spectral basis \<^verbatim>\<open>Basis2DQNChebyshev2\<close>\<close>

text \<open>
  \<^verbatim>\<open>scipy.special.jacobi(n, a, b)\<close> is a library function: it raises
  \<^verbatim>\<open>ValueError\<close> for a negative degree and otherwise returns the Jacobi polynomial
  of degree \<open>n\<close>, which is then evaluated at every element of \<open>x\<close>. The evaluation
  of the polynomial is the parameter \<open>J\<close> of the model. \<^verbatim>\<open>jacobi_wrapper\<close> is called
  with an array \<open>x\<close> and with the number \<open>1\<close>; \<open>jacobi_wrapper0\<close> is the second use.
\<close>

type_synonym jacobi = "nat \<Rightarrow> real \<Rightarrow> real \<Rightarrow> real \<Rightarrow> real"

definition jacobi_wrapper :: "jacobi \<Rightarrow> int \<Rightarrow> real \<Rightarrow> real \<Rightarrow> real list \<Rightarrow> error + real list" where
  "jacobi_wrapper J n a b x =
     (if n < 0 then Inl (ValueError ''n must be nonnegative.'')
      else Inr (map (J (nat n) a b) x))"

definition jacobi_wrapper0 :: "jacobi \<Rightarrow> int \<Rightarrow> real \<Rightarrow> real \<Rightarrow> real \<Rightarrow> error + real" where
  "jacobi_wrapper0 J n a b x =
     (if n < 0 then Inl (ValueError ''n must be nonnegative.'')
      else Inr (J (nat n) a b x))"

text \<open>
  Arithmetic on one-dimensional arrays: a number times an array, an array
  divided by a number, and the difference of two arrays of one length (both
  operands of every difference below are evaluations at the same \<open>x\<close>).
\<close>

definition np_scale :: "real \<Rightarrow> real list \<Rightarrow> real list" where
  "np_scale c xs = map (\<lambda>u. c * u) xs"

definition np_div :: "real list \<Rightarrow> real \<Rightarrow> real list" where
  "np_div xs d = map (\<lambda>u. u / d) xs"

definition np_sub :: "real list \<Rightarrow> real list \<Rightarrow> real list" where
  "np_sub xs ys = map2 (\<lambda>u v. u - v) xs ys"

text \<open>
  \<^verbatim>\<open>test_fcnx\<close> and \<^verbatim>\<open>test_fcny\<close>: the loop over \<^verbatim>\<open>range(1, n_test + 1)\<close> appends one
  row per index; \<^verbatim>\<open>np.asarray\<close> makes the list of rows an array.
\<close>

fun test_fcnx_loop :: "jacobi \<Rightarrow> int list \<Rightarrow> real list \<Rightarrow> real list list \<Rightarrow> error + real list list" where
  "test_fcnx_loop J [] x test_total = Inr test_total"
| "test_fcnx_loop J (n # ns) x test_total =
     bind_err (jacobi_wrapper J (n + 1) (- 1 / 2) (- 1 / 2) x) (\<lambda>p1.
     bind_err (jacobi_wrapper0 J (n + 1) (- 1 / 2) (- 1 / 2) 1) (\<lambda>d1.
     bind_err (jacobi_wrapper J (n - 1) (- 1 / 2) (- 1 / 2) x) (\<lambda>p2.
     bind_err (jacobi_wrapper0 J (n - 1) (- 1 / 2) (- 1 / 2) 1) (\<lambda>d2.
       test_fcnx_loop J ns x (test_total @ [np_sub (np_div p1 d1) (np_div p2 d2)])))))"

definition test_fcnx :: "jacobi \<Rightarrow> nat \<Rightarrow> real list \<Rightarrow> error + real list list" where
  "test_fcnx J n_test x = test_fcnx_loop J [1..int n_test] x []"

fun test_fcny_loop :: "jacobi \<Rightarrow> int list \<Rightarrow> real list \<Rightarrow> real list list \<Rightarrow> error + real list list" where
  "test_fcny_loop J [] y test_total = Inr test_total"
| "test_fcny_loop J (n # ns) y test_total =
     bind_err (jacobi_wrapper J (n + 1) (- 1 / 2) (- 1 / 2) y) (\<lambda>p1.
     bind_err (jacobi_wrapper0 J (n + 1) (- 1 / 2) (- 1 / 2) 1) (\<lambda>d1.
     bind_err (jacobi_wrapper J (n - 1) (- 1 / 2) (- 1 / 2) y) (\<lambda>p2.
     bind_err (jacobi_wrapper0 J (n - 1) (- 1 / 2) (- 1 / 2) 1) (\<lambda>d2.
       test_fcny_loop J ns y (test_total @ [np_sub (np_div p1 d1) (np_div p2 d2)])))))"

definition test_fcny :: "jacobi \<Rightarrow> nat \<Rightarrow> real list \<Rightarrow> error + real list list" where
  "test_fcny J n_test y = test_fcny_loop J [1..int n_test] y []"

text \<open>
  \<^verbatim>\<open>dtest_fcn\<close>. Each of its terms has the form
  \<^verbatim>\<open>c * jacobi_wrapper(m, a, b, x) / jacobi_wrapper(k, -1/2, -1/2, 1)\<close>, which
  \<open>jacobi_term\<close> abbreviates; the three branches on \<^verbatim>\<open>n\<close> are those of the source.
\<close>

definition jacobi_term ::
  "jacobi \<Rightarrow> real \<Rightarrow> int \<Rightarrow> real \<Rightarrow> real \<Rightarrow> real list \<Rightarrow> int \<Rightarrow> error + real list" where
  "jacobi_term J c m a b x k =
     bind_err (jacobi_wrapper J m a b x) (\<lambda>p.
     bind_err (jacobi_wrapper0 J k (- 1 / 2) (- 1 / 2) 1) (\<lambda>d.
       Inr (np_div (np_scale c p) d)))"

definition dtest_row :: "jacobi \<Rightarrow> int \<Rightarrow> real list \<Rightarrow> error + (real list \<times> real list)" where
  "dtest_row J n x =
     (if n = 1 then
        bind_err (jacobi_term J (real_of_int (n + 1) / 2) n (1 / 2) (1 / 2) x (n + 1)) (\<lambda>d1test.
        bind_err (jacobi_term J (real_of_int ((n + 2) * (n + 1)) / (2 * 2)) (n - 1) (3 / 2) (3 / 2) x (n + 1))
          (\<lambda>d2test. Inr (d1test, d2test)))
      else if n = 2 then
        bind_err (jacobi_term J (real_of_int (n + 1) / 2) n (1 / 2) (1 / 2) x (n + 1)) (\<lambda>t1.
        bind_err (jacobi_term J (real_of_int (n - 1) / 2) (n - 2) (1 / 2) (1 / 2) x (n - 1)) (\<lambda>t2.
        bind_err (jacobi_term J (real_of_int ((n + 2) * (n + 1)) / (2 * 2)) (n - 1) (3 / 2) (3 / 2) x (n + 1))
          (\<lambda>d2test. Inr (np_sub t1 t2, d2test))))
      else
        bind_err (jacobi_term J (real_of_int (n + 1) / 2) n (1 / 2) (1 / 2) x (n + 1)) (\<lambda>t1.
        bind_err (jacobi_term J (real_of_int (n - 1) / 2) (n - 2) (1 / 2) (1 / 2) x (n - 1)) (\<lambda>t2.
        bind_err (jacobi_term J (real_of_int ((n + 2) * (n + 1)) / (2 * 2)) (n - 1) (3 / 2) (3 / 2) x (n + 1)) (\<lambda>s1.
        bind_err (jacobi_term J (real_of_int (n * (n - 1)) / (2 * 2)) (n - 3) (3 / 2) (3 / 2) x (n - 1)) (\<lambda>s2.
          Inr (np_sub t1 t2, np_sub s1 s2))))))"

fun dtest_fcn_loop ::
  "jacobi \<Rightarrow> int list \<Rightarrow> real list \<Rightarrow> real list list \<times> real list list \<Rightarrow>
   error + (real list list \<times> real list list)" where
  "dtest_fcn_loop J [] x (d1test_total, d2test_total) = Inr (d1test_total, d2test_total)"
| "dtest_fcn_loop J (n # ns) x (d1test_total, d2test_total) =
     bind_err (dtest_row J n x) (\<lambda>(d1test, d2test).
       dtest_fcn_loop J ns x (d1test_total @ [d1test], d2test_total @ [d2test]))"

definition dtest_fcn :: "jacobi \<Rightarrow> nat \<Rightarrow> real list \<Rightarrow> error + (real list list \<times> real list list)" where
  "dtest_fcn J n_test x = dtest_fcn_loop J [1..int n_test] x ([], [])"

text \<open>
  The six evaluators. The object \<open>self\<close> is a \<open>basis_function_2d\<close>: the constructor
  of \<^verbatim>\<open>Basis2DQNChebyshev2\<close> passes \<^verbatim>\<open>num_shape_functions\<close> to the base class
  \<^verbatim>\<open>BasisFunction2D\<close> (not embedded), and that attribute is all the evaluators read
  of the object. \<^verbatim>\<open>int(np.sqrt(N))\<close> is the integer square root (\<^verbatim>\<open>np.sqrt\<close>
  is exact on the squares below \<open>2^52\<close>). Every evaluator runs the same loop:
  \<^verbatim>\<open>values[n * i : n * (i + 1), :] = fx[i, :] * fy\<close>. The product of the row
  \<^verbatim>\<open>fx[i, :]\<close> with the array \<open>fy\<close> multiplies it with every row of \<open>fy\<close>, where
  NumPy stretches an operand of length one and refuses other unequal lengths.
  The slice never leaves the array, since \<open>n * n \<le> N\<close>, and the block has one
  row per row of the slice; the assignment needs rows of the width of \<^verbatim>\<open>values\<close>.
\<close>

primrec isqrt_upto :: "nat \<Rightarrow> nat \<Rightarrow> nat" where
  "isqrt_upto N 0 = 0"
| "isqrt_upto N (Suc k) = (if Suc k * Suc k \<le> N then Suc k else isqrt_upto N k)"

definition isqrt :: "nat \<Rightarrow> nat" where
  "isqrt N = isqrt_upto N N"

definition np_mul :: "real list \<Rightarrow> real list \<Rightarrow> error + real list" where
  "np_mul xs ys =
     (if length xs = length ys then Inr (map2 (\<lambda>u v. u * v) xs ys)
      else if length ys = 1 then Inr (map (\<lambda>u. u * hd ys) xs)
      else if length xs = 1 then Inr (map (\<lambda>v. hd xs * v) ys)
      else Inl (ValueError ''operands could not be broadcast together''))"

primrec map_err :: "('a \<Rightarrow> error + 'b) \<Rightarrow> 'a list \<Rightarrow> error + 'b list" where
  "map_err f [] = Inr []"
| "map_err f (x # xs) = bind_err (f x) (\<lambda>v. bind_err (map_err f xs) (\<lambda>vs. Inr (v # vs)))"

definition setitem_rows :: "ndarray2 \<Rightarrow> nat \<Rightarrow> nat \<Rightarrow> real list list \<Rightarrow> error + ndarray2" where
  "setitem_rows a lo hi block =
     (if lo \<le> hi \<and> hi \<le> fst (shape a) \<and> length block = hi - lo \<and>
         (\<forall>row \<in> set block. length row = snd (shape a))
      then Inr (a\<lparr>entry := (\<lambda>r c. if lo \<le> r \<and> r < hi then block ! (r - lo) ! c else entry a r c)\<rparr>)
      else Inl (ValueError ''could not broadcast input array''))"

fun assemble ::
  "nat \<Rightarrow> real list list \<Rightarrow> real list list \<Rightarrow> nat list \<Rightarrow> ndarray2 \<Rightarrow> error + ndarray2" where
  "assemble n fx fy [] values = Inr values"
| "assemble n fx fy (i # rest) values =
     bind_err (list_getitem fx (int i)) (\<lambda>row.
     bind_err (map_err (np_mul row) fy) (\<lambda>block.
     bind_err (setitem_rows values (n * i) (n * (i + 1)) block) (\<lambda>values'.
       assemble n fx fy rest values')))"

definition value_at :: "jacobi \<Rightarrow> basis_function_2d \<Rightarrow> real list \<Rightarrow> real list \<Rightarrow> error + ndarray2" where
  "value_at J self xi eta =
     (let num_shape_func_in_1d = isqrt (num_shape_functions self) in
      bind_err (test_fcnx J num_shape_func_in_1d xi) (\<lambda>test_x.
      bind_err (test_fcny J num_shape_func_in_1d eta) (\<lambda>test_y.
        assemble num_shape_func_in_1d test_x test_y [0..<num_shape_func_in_1d]
          (zeros (num_shape_functions self, length xi)))))"

definition gradx :: "jacobi \<Rightarrow> basis_function_2d \<Rightarrow> real list \<Rightarrow> real list \<Rightarrow> error + ndarray2" where
  "gradx J self xi eta =
     (let num_shape_func_in_1d = isqrt (num_shape_functions self) in
      bind_err (dtest_fcn J num_shape_func_in_1d xi) (\<lambda>d.
      bind_err (test_fcny J num_shape_func_in_1d eta) (\<lambda>test_y.
        assemble num_shape_func_in_1d (fst d) test_y [0..<num_shape_func_in_1d]
          (zeros (num_shape_functions self, length xi)))))"

definition grady :: "jacobi \<Rightarrow> basis_function_2d \<Rightarrow> real list \<Rightarrow> real list \<Rightarrow> error + ndarray2" where
  "grady J self xi eta =
     (let num_shape_func_in_1d = isqrt (num_shape_functions self) in
      bind_err (test_fcnx J num_shape_func_in_1d xi) (\<lambda>test_x.
      bind_err (dtest_fcn J num_shape_func_in_1d eta) (\<lambda>d.
        assemble num_shape_func_in_1d test_x (fst d) [0..<num_shape_func_in_1d]
          (zeros (num_shape_functions self, length xi)))))"

definition gradxx :: "jacobi \<Rightarrow> basis_function_2d \<Rightarrow> real list \<Rightarrow> real list \<Rightarrow> error + ndarray2" where
  "gradxx J self xi eta =
     (let num_shape_func_in_1d = isqrt (num_shape_functions self) in
      bind_err (dtest_fcn J num_shape_func_in_1d xi) (\<lambda>d.
      bind_err (test_fcny J num_shape_func_in_1d eta) (\<lambda>test_y.
        assemble num_shape_func_in_1d (snd d) test_y [0..<num_shape_func_in_1d]
          (zeros (num_shape_functions self, length xi)))))"

definition gradxy :: "jacobi \<Rightarrow> basis_function_2d \<Rightarrow> real list \<Rightarrow> real list \<Rightarrow> error + ndarray2" where
  "gradxy J self xi eta =
     (let num_shape_func_in_1d = isqrt (num_shape_functions self) in
      bind_err (dtest_fcn J num_shape_func_in_1d xi) (\<lambda>dx.
      bind_err (dtest_fcn J num_shape_func_in_1d eta) (\<lambda>dy.
        assemble num_shape_func_in_1d (fst dx) (fst dy) [0..<num_shape_func_in_1d]
          (zeros (num_shape_functions self, length xi)))))"

definition gradyy :: "jacobi \<Rightarrow> basis_function_2d \<Rightarrow> real list \<Rightarrow> real list \<Rightarrow> error + ndarray2" where
  "gradyy J self xi eta =
     (let num_shape_func_in_1d = isqrt (num_shape_functions self) in
      bind_err (test_fcnx J num_shape_func_in_1d xi) (\<lambda>test_x.
      bind_err (dtest_fcn J num_shape_func_in_1d eta) (\<lambda>d.
        assemble num_shape_func_in_1d test_x (snd d) [0..<num_shape_func_in_1d]
          (zeros (num_shape_functions self, length xi)))))"

section \<open>Invariants and example objects\<close>

text \<open>
  What \<^verbatim>\<open>FE2D_Cell\<close> guarantees about the arrays of a cell is taken from the
  data model of the design document: \<^verbatim>\<open>basis_at_quad\<close> has one row
  per shape function and one column per quadrature point, and
  \<^verbatim>\<open>quad_actual_coordinates\<close> has one row of two coordinates per quadrature point.
\<close>

definition cell_shapes_ok :: "fe2d_cell \<Rightarrow> bool" where
  "cell_shapes_ok cell \<longleftrightarrow>
     fst (shape (basis_at_quad cell)) = num_shape_functions (basis_function cell) \<and>
     shape (quad_actual_coordinates cell) = (snd (shape (basis_at_quad cell)), 2)"

text \<open>
  The quadrature sum of shape function \<open>i\<close> against the forcing function, and the
  array of shape \<open>(N, 1)\<close> that holds these sums.
\<close>

definition forcing_integral :: "fe2d_cell \<Rightarrow> nat \<Rightarrow> real" where
  "forcing_integral cell i =
     (\<Sum>q < snd (shape (basis_at_quad cell)).
        entry (basis_at_quad cell) i q *
        forcing_function cell (entry (quad_actual_coordinates cell) q 0)
                              (entry (quad_actual_coordinates cell) q 1))"

definition forcing_result :: "fe2d_cell \<Rightarrow> ndarray2" where
  "forcing_result cell =
     \<lparr>shape = (num_shape_functions (basis_function cell), 1),
      entry = (\<lambda>r c. if r < num_shape_functions (basis_function cell)
                       then forcing_integral cell r else 0)\<rparr>"

text \<open>
  \<^verbatim>\<open>np.array\<close> of a non-empty list of rows of one length, for writing examples,
  and a space of one cell with one shape function and two quadrature points.
\<close>

definition array2 :: "real list list \<Rightarrow> ndarray2" where
  "array2 rs = \<lparr>shape = (length rs, length (hd rs)), entry = (\<lambda>i j. rs ! i ! j)\<rparr>"

definition cell_ex :: fe2d_cell where
  "cell_ex =
     \<lparr>cell_coordinates = array2 [[0, 0], [1, 0], [1, 1], [0, 1]],
      basis_function = \<lparr>num_shape_functions = 1\<rparr>,
      basis_at_quad = array2 [[1, 2]],
      basis_gradx_at_quad = array2 [[3, 4]],
      basis_grady_at_quad = array2 [[5, 6]],
      basis_gradx_at_quad_ref = array2 [[7, 8]],
      basis_grady_at_quad_ref = array2 [[9, 10]],
      quad_actual_coordinates = array2 [[0, 1], [2, 3]],
      mult = array2 [[1 / 4], [1 / 4]],
      forcing_at_quad = zeros (1, 1),
      forcing_function = (\<lambda>x y. x + y)\<rparr>"

definition FE2D_Cell_ex :: cell_constructor where
  "FE2D_Cell_ex coords cfg f = Inr (cell_ex\<lparr>cell_coordinates := coords, forcing_function := f\<rparr>)"

definition config_ex :: fe_config where
  "config_ex =
     \<lparr>cell_type = ''quadrilateral'', fe_order = 1, fe_type = ''jacobi'', quad_order = 2,
      quad_type = ''gauss-legendre'', fe_transformation_type = ''bilinear''\<rparr>"

definition space_ex :: fespace2d where
  "space_ex =
     \<lparr>cells = [array2 [[0, 0], [1, 0], [1, 1], [0, 1]]],
      config = config_ex,
      sp_forcing_function = (\<lambda>x y. x + y),
      boundary_points = [(1000, [(0, 0), (1, 0)]), (1001, [(1, 1)])],
      bound_function_dict = [1000 \<mapsto> (\<lambda>x y. x * y), 1001 \<mapsto> (\<lambda>x y. x - y)],
      generate_mesh_plot = False,
      total_dofs = 2, total_boundary_dofs = 0, total_dirichlet_dofs = 3,
      n_cells = 1,
      fe_cell = [cell_ex],
      dirichlet_boundary_data = Some ([(0, 0), (1, 0), (1, 1)], [0, 0, 0])\<rparr>"


text \<open>
  A tag of \<^verbatim>\<open>boundary_points\<close> at which the boundary dictionary is indexed and has
  no entry: it has a point and no boundary function.
\<close>

definition tag_unserved :: "(int \<rightharpoonup> (real \<Rightarrow> real \<Rightarrow> real)) \<Rightarrow> int \<times> (real \<times> real) list \<Rightarrow> bool" where
  "tag_unserved d item \<longleftrightarrow>
     snd item \<noteq> [] \<and> (case d (fst item) of None \<Rightarrow> True | Some f \<Rightarrow> False)"

text \<open>
  The rows that the loops of \<^verbatim>\<open>test_fcnx\<close>, \<^verbatim>\<open>test_fcny\<close> and \<^verbatim>\<open>dtest_fcn\<close> append,
  as plain functions of the index: the results of the loops are stated with them.
\<close>

definition test_row :: "jacobi \<Rightarrow> int \<Rightarrow> real list \<Rightarrow> real list" where
  "test_row J n x =
     np_sub (np_div (map (J (nat (n + 1)) (- 1 / 2) (- 1 / 2)) x) (J (nat (n + 1)) (- 1 / 2) (- 1 / 2) 1))
            (np_div (map (J (nat (n - 1)) (- 1 / 2) (- 1 / 2)) x) (J (nat (n - 1)) (- 1 / 2) (- 1 / 2) 1))"

definition jacobi_quotient :: "jacobi \<Rightarrow> real \<Rightarrow> int \<Rightarrow> real \<Rightarrow> real \<Rightarrow> real list \<Rightarrow> int \<Rightarrow> real list" where
  "jacobi_quotient J c m a b x k =
     np_div (np_scale c (map (J (nat m) a b) x)) (J (nat k) (- 1 / 2) (- 1 / 2) 1)"

definition d1test_row :: "jacobi \<Rightarrow> int \<Rightarrow> real list \<Rightarrow> real list" where
  "d1test_row J n x =
     (if n = 1 then jacobi_quotient J (real_of_int (n + 1) / 2) n (1 / 2) (1 / 2) x (n + 1)
      else np_sub (jacobi_quotient J (real_of_int (n + 1) / 2) n (1 / 2) (1 / 2) x (n + 1))
                  (jacobi_quotient J (real_of_int (n - 1) / 2) (n - 2) (1 / 2) (1 / 2) x (n - 1)))"

definition d2test_row :: "jacobi \<Rightarrow> int \<Rightarrow> real list \<Rightarrow> real list" where
  "d2test_row J n x =
     (if n = 1 \<or> n = 2 then
        jacobi_quotient J (real_of_int ((n + 2) * (n + 1)) / (2 * 2)) (n - 1) (3 / 2) (3 / 2) x (n + 1)
      else np_sub
        (jacobi_quotient J (real_of_int ((n + 2) * (n + 1)) / (2 * 2)) (n - 1) (3 / 2) (3 / 2) x (n + 1))
        (jacobi_quotient J (real_of_int (n * (n - 1)) / (2 * 2)) (n - 3) (3 / 2) (3 / 2) x (n - 1)))"

text \<open>
  The Jacobi polynomial \<open>P\<^bsup>(a,b)\<^esup>\<^bsub>n\<^esub>\<close> in closed form, which \<^verbatim>\<open>scipy.special.jacobi\<close>
  evaluates: the instance of \<open>J\<close> in the examples.
\<close>

definition jacobi_poly :: jacobi where
  "jacobi_poly n a b x =
     (\<Sum>s \<le> n. ((of_nat n + a) gchoose (n - s)) * ((of_nat n + b) gchoose s) *
        ((x - 1) / 2) ^ s * ((x + 1) / 2) ^ (n - s))"

text \<open>
  The block assignment of the evaluators, as a property of the result: the row
  \<open>i * n + j\<close> holds the products of row \<open>i\<close> of \<open>fx\<close> and row \<open>j\<close> of \<open>fy\<close>. Row \<open>r\<close>
  is in block \<open>i\<close> when it belongs to the slice \<open>n * i : n * (i + 1)\<close>.
\<close>

definition tensor_rows :: "nat \<Rightarrow> nat \<Rightarrow> real list list \<Rightarrow> real list list \<Rightarrow> ndarray2 \<Rightarrow> bool" where
  "tensor_rows n P fx fy V \<longleftrightarrow>
     (\<forall>i \<in> {..<n}. \<forall>j \<in> {..<n}. \<forall>p \<in> {..<P}.
        entry V (i * n + j) p = fx ! i ! p * fy ! j ! p)"

definition in_block :: "nat \<Rightarrow> nat \<Rightarrow> nat \<Rightarrow> bool" where
  "in_block n i r \<longleftrightarrow> n * i \<le> r \<and> r < n * (i + 1)"

section \<open>Basic facts\<close>

declare str_nat.simps [simp del]


lemma bind_err_Inl [simp]: "bind_err (Inl e) f = Inl e"
  by (simp add: bind_err_def)

lemma bind_err_Inr [simp]: "bind_err (Inr v) f = f v"
  by (simp add: bind_err_def)

lemma tag_unserved_iff:
  "tag_unserved d item \<longleftrightarrow> snd item \<noteq> [] \<and> d (fst item) = None"
  by (simp add: tag_unserved_def split: option.splits)

lemma tensor_rows_iff:
  "tensor_rows n P fx fy V \<longleftrightarrow>
     (\<forall>i < n. \<forall>j < n. \<forall>p < P. entry V (i * n + j) p = fx ! i ! p * fy ! j ! p)"
  by (auto simp: tensor_rows_def)


lemma list_getitem_nonneg:
  "0 \<le> i \<Longrightarrow> i < int (length xs) \<Longrightarrow> list_getitem xs i = Inr (xs ! nat i)"
  by (simp add: list_getitem_def list_index_def)







lemma forcing_inner_sum:
  assumes "\<forall>q \<in> set qs. q < snd (shape (basis_at_quad cell))"
    and "i < fst (shape (basis_at_quad cell))"
    and "shape (quad_actual_coordinates cell) = (snd (shape (basis_at_quad cell)), 2)"
  shows "forcing_inner cell i qs val =
    Inr (val + (\<Sum>q \<leftarrow> qs. entry (basis_at_quad cell) i q *
       forcing_function cell (entry (quad_actual_coordinates cell) q 0)
                             (entry (quad_actual_coordinates cell) q 1)))"
  using assms
proof (induction qs arbitrary: val)
  case Nil
  then show ?case by simp
next
  case (Cons q qs)
  then show ?case by (simp add: getitem2_def add.assoc)
qed

lemma forcing_inner_range:
  assumes "i < fst (shape (basis_at_quad cell))"
    and "shape (quad_actual_coordinates cell) = (snd (shape (basis_at_quad cell)), 2)"
  shows "forcing_inner cell i [0..<snd (shape (basis_at_quad cell))] 0 = Inr (forcing_integral cell i)"
proof -
  have "forcing_inner cell i [0..<snd (shape (basis_at_quad cell))] 0 =
    Inr (0 + (\<Sum>q \<leftarrow> [0..<snd (shape (basis_at_quad cell))]. entry (basis_at_quad cell) i q *
       forcing_function cell (entry (quad_actual_coordinates cell) q 0)
                             (entry (quad_actual_coordinates cell) q 1)))"
    using assms by (intro forcing_inner_sum) auto
  then show ?thesis
    by (simp add: forcing_integral_def interv_sum_list_conv_sum_set_nat atLeast0LessThan)
qed

lemma forcing_outer_result:
  assumes "\<forall>i \<in> set is. i < fst (shape (basis_at_quad cell)) \<and> i < fst (shape a)"
    and "shape (quad_actual_coordinates cell) = (snd (shape (basis_at_quad cell)), 2)"
  shows "forcing_outer cell is a =
    Inr (a\<lparr>entry := (\<lambda>r c. if r \<in> set is then forcing_integral cell r else entry a r c)\<rparr>)"
  using assms
proof (induction "is" arbitrary: a)
  case Nil
  then show ?case by simp
next
  case (Cons i "is")
  then show ?case
    by (auto simp: forcing_inner_range setitem_row_def fun_eq_iff intro!: arg_cong[where f=Inr])
qed

lemma space_ex_constructed:
  "Fespace2D FE2D_Cell_ex [array2 [[0, 0], [1, 0], [1, 1], [0, 1]]]
     [(1000, [(0, 0), (1, 0)]), (1001, [(1, 1)])] config_ex
     [1000 \<mapsto> (\<lambda>x y. x * y), 1001 \<mapsto> (\<lambda>x y. x - y)] (\<lambda>x y. x + y) False = Inr space_ex"
  by (simp add: Fespace2D_def set_finite_elements_def generate_dirichlet_boundary_data_def
      FE2D_Cell_ex_def cell_ex_def space_ex_def config_ex_def list_getitem_def list_index_def
      array2_def)

lemma forcing_integral_update [simp]:
  "forcing_integral (cell\<lparr>forcing_at_quad := F\<rparr>) i = forcing_integral cell i"
  by (simp add: forcing_integral_def)

lemma forcing_result_update [simp]:
  "forcing_result (cell\<lparr>forcing_at_quad := F\<rparr>) = forcing_result cell"
  by (simp add: forcing_result_def cong: if_cong)

lemma cell_shapes_ok_update [simp]:
  "cell_shapes_ok (cell\<lparr>forcing_at_quad := F\<rparr>) = cell_shapes_ok cell"
  by (simp add: cell_shapes_ok_def)

lemma forcing_outer_zeros:
  assumes "cell_shapes_ok cell"
  shows "forcing_outer cell [0..<num_shape_functions (basis_function cell)]
           (zeros (num_shape_functions (basis_function cell), 1)) = Inr (forcing_result cell)"
proof -
  have "forcing_outer cell [0..<num_shape_functions (basis_function cell)]
           (zeros (num_shape_functions (basis_function cell), 1)) =
        Inr ((zeros (num_shape_functions (basis_function cell), 1))
               \<lparr>entry := (\<lambda>r c. if r \<in> set [0..<num_shape_functions (basis_function cell)]
                   then forcing_integral cell r
                   else entry (zeros (num_shape_functions (basis_function cell), 1)) r c)\<rparr>)"
    using assms by (intro forcing_outer_result) (auto simp: cell_shapes_ok_def zeros_def)
  then show ?thesis
    by (simp add: forcing_result_def zeros_def cong: if_cong)
qed

lemma get_forcing_function_values_result:
  assumes "cell_index \<le> int (n_cells sp)"
    and "list_getitem (fe_cell sp) cell_index = Inr cell"
    and "cell_shapes_ok cell"
  shows "get_forcing_function_values sp cell_index =
     Inr (forcing_result cell,
          sp\<lparr>fe_cell := (fe_cell sp)[nat (list_index (fe_cell sp) cell_index) :=
                           cell\<lparr>forcing_at_quad := forcing_result cell\<rparr>]\<rparr>)"
  using assms
  by (simp add: get_forcing_function_values_def Let_def forcing_outer_zeros[unfolded One_nat_def])


section \<open>Cell indices at the accessors\<close>


lemma space_ex_cells: "n_cells space_ex = 1" "fe_cell space_ex = [cell_ex]"
  by (simp_all add: space_ex_def)

lemma cell_ex_ok: "cell_shapes_ok cell_ex"
  by (simp add: cell_shapes_ok_def cell_ex_def array2_def)

lemma cell_ex_fields:
  "basis_at_quad cell_ex = array2 [[1, 2]]"
  "basis_gradx_at_quad cell_ex = array2 [[3, 4]]"
  "basis_grady_at_quad cell_ex = array2 [[5, 6]]"
  "basis_gradx_at_quad_ref cell_ex = array2 [[7, 8]]"
  "basis_grady_at_quad_ref cell_ex = array2 [[9, 10]]"
  "quad_actual_coordinates cell_ex = array2 [[0, 1], [2, 3]]"
  "mult cell_ex = array2 [[1 / 4], [1 / 4]]"
  "num_shape_functions (basis_function cell_ex) = 1"
  by (simp_all add: cell_ex_def)





section \<open>The forcing integrals\<close>

lemma get_forcing_function_values_valid:
  assumes "0 \<le> c" and "c < int (n_cells sp)" and "length (fe_cell sp) = n_cells sp"
    and "cell_shapes_ok (fe_cell sp ! nat c)"
  shows "get_forcing_function_values sp c =
     Inr (forcing_result (fe_cell sp ! nat c),
          sp\<lparr>fe_cell := (fe_cell sp)[nat c :=
                  (fe_cell sp ! nat c)\<lparr>forcing_at_quad := forcing_result (fe_cell sp ! nat c)\<rparr>]\<rparr>)"
proof -
  have get: "list_getitem (fe_cell sp) c = Inr (fe_cell sp ! nat c)"
    using assms(1-3) by (simp add: list_getitem_nonneg)
  have idx: "nat (list_index (fe_cell sp) c) = nat c"
    using assms(1) by (simp add: list_index_def)
  show ?thesis
    using get_forcing_function_values_result[OF _ get assms(4)] assms(2) by (simp add: idx)
qed

text \<open>
  C4. For a valid cell index \<open>c\<close> (\<open>0 \<le> c < n_cells\<close>) of a space whose cell \<open>c\<close>
  has consistent shapes, \<^verbatim>\<open>get_forcing_function_values\<close> returns an array \<open>F\<close> of
  shape \<open>(N, 1)\<close> whose entry \<open>i\<close> is the plain sum over the quadrature points \<open>q\<close>
  of \<^verbatim>\<open>basis_at_quad[i, q] * forcing_function(x_q, y_q)\<close>, with no further factor;
  the new state is the old one with \<open>F\<close> stored as \<^verbatim>\<open>forcing_at_quad\<close> of cell \<open>c\<close>,
  whatever was stored before; and the same call on the new state returns the
  same array and the same state.
\<close>

theorem forcing_function_values_quadrature_sum:
  fixes sp :: fespace2d and c :: int
  defines "cell \<equiv> fe_cell sp ! nat c"
  assumes "0 \<le> c" and "c < int (n_cells sp)" and "length (fe_cell sp) = n_cells sp"
    and "cell_shapes_ok cell"
  shows "\<exists>F sp'. get_forcing_function_values sp c = Inr (F, sp') \<and>
           shape F = (num_shape_functions (basis_function cell), 1) \<and>
           (\<forall>i < num_shape_functions (basis_function cell).
              entry F i 0 =
                (\<Sum>q < snd (shape (basis_at_quad cell)).
                   entry (basis_at_quad cell) i q *
                   forcing_function cell (entry (quad_actual_coordinates cell) q 0)
                                         (entry (quad_actual_coordinates cell) q 1))) \<and>
           sp' = sp\<lparr>fe_cell := (fe_cell sp)[nat c := cell\<lparr>forcing_at_quad := F\<rparr>]\<rparr> \<and>
           get_forcing_function_values sp' c = Inr (F, sp')"
proof -
  define F where "F = forcing_result cell"
  define sp' where "sp' = sp\<lparr>fe_cell := (fe_cell sp)[nat c := cell\<lparr>forcing_at_quad := F\<rparr>]\<rparr>"
  have first: "get_forcing_function_values sp c = Inr (F, sp')"
    using get_forcing_function_values_valid[of c sp] assms by (simp add: F_def sp'_def)
  have in_range: "nat c < length (fe_cell sp)"
    using assms by simp
  have cell': "fe_cell sp' ! nat c = cell\<lparr>forcing_at_quad := F\<rparr>"
    using in_range by (simp add: sp'_def)
  have "get_forcing_function_values sp' c =
     Inr (forcing_result (fe_cell sp' ! nat c),
          sp'\<lparr>fe_cell := (fe_cell sp')[nat c :=
                  (fe_cell sp' ! nat c)\<lparr>forcing_at_quad := forcing_result (fe_cell sp' ! nat c)\<rparr>]\<rparr>)"
    using assms in_range by (intro get_forcing_function_values_valid) (simp_all add: sp'_def)
  then have again: "get_forcing_function_values sp' c = Inr (F, sp')"
    by (simp add: cell' F_def) (simp add: sp'_def F_def)
  have shape: "shape F = (num_shape_functions (basis_function cell), 1)"
    by (simp add: F_def forcing_result_def)
  have entries: "\<forall>i < num_shape_functions (basis_function cell).
              entry F i 0 =
                (\<Sum>q < snd (shape (basis_at_quad cell)).
                   entry (basis_at_quad cell) i q *
                   forcing_function cell (entry (quad_actual_coordinates cell) q 0)
                                         (entry (quad_actual_coordinates cell) q 1))"
    by (simp add: F_def forcing_result_def forcing_integral_def)
  from first again shape entries show ?thesis
    unfolding sp'_def by blast
qed

text \<open>
  The cell of the example has the basis values \<open>1, 2\<close> at the quadrature points
  \<open>(0, 1)\<close> and \<open>(2, 3)\<close> and the forcing function \<open>x + y\<close>.
\<close>

theorem forcing_function_values_quadrature_sum_witness:
  "\<exists>F sp'. get_forcing_function_values space_ex 0 = Inr (F, sp') \<and>
     shape F = (1, 1) \<and> entry F 0 0 = 1 * (0 + 1) + 2 * (2 + 3) \<and>
     sp' = space_ex\<lparr>fe_cell := [cell_ex\<lparr>forcing_at_quad := F\<rparr>]\<rparr> \<and>
     get_forcing_function_values sp' 0 = Inr (F, sp')"
proof -
  have vals: "forcing_function cell_ex = (\<lambda>x y. x + y)"
    by (simp add: cell_ex_def)
  show ?thesis
    using forcing_function_values_quadrature_sum[of 0 space_ex]
    by (simp add: space_ex_cells cell_ex_ok cell_ex_fields array2_def vals)
qed






section \<open>Construction: degrees of freedom and boundary data\<close>

lemma bind_err_eq_Inr:
  "bind_err m f = Inr r \<longleftrightarrow> (\<exists>v. m = Inr v \<and> f v = Inr r)"
  by (cases m) simp_all

lemma set_finite_elements_loop_result:
  assumes "set_finite_elements_loop mk sp [length fe..<n] (fe, dof) = Inr (fe', dof')"
    and "length fe \<le> n"
  shows "length fe' = n \<and> take (length fe) fe' = fe \<and>
         dof' = dof + (\<Sum>cell \<leftarrow> drop (length fe) fe'. snd (shape (basis_at_quad cell)))"
  using assms
proof (induction "n - length fe" arbitrary: fe dof)
  case 0
  then show ?case by simp
next
  case (Suc k)
  then have lt: "length fe < n" by simp
  from Suc.prems(1) obtain coords cell where
    cell: "mk coords (config sp) (sp_forcing_function sp) = Inr cell"
    and rest: "set_finite_elements_loop mk sp [Suc (length fe)..<n]
        (fe @ [cell], dof + snd (shape (basis_at_quad cell))) = Inr (fe', dof')"
    using lt
    by (auto simp: upt_conv_Cons bind_err_eq_Inr list_getitem_def list_index_def
        split: if_splits)
  have ih: "length fe' = n \<and> take (length (fe @ [cell])) fe' = fe @ [cell] \<and>
      dof' = dof + snd (shape (basis_at_quad cell)) +
        (\<Sum>c \<leftarrow> drop (length (fe @ [cell])) fe'. snd (shape (basis_at_quad c)))"
    using Suc.hyps(1)[of "fe @ [cell]" "dof + snd (shape (basis_at_quad cell))"] Suc.hyps(2) rest lt
    by simp
  then have tk: "take (Suc (length fe)) fe' = fe @ [cell]" by simp
  have len: "length fe < length fe'" using ih lt by simp
  have nth: "fe' ! length fe = cell"
    using tk len by (metis length_append_singleton lessI nth_append_length nth_take)
  have drop: "drop (length fe) fe' = cell # drop (Suc (length fe)) fe'"
    using Cons_nth_drop_Suc[OF len] nth by simp
  have "take (length fe) fe' = take (length fe) (take (Suc (length fe)) fe')"
    by simp
  also have "\<dots> = fe"
    by (simp only: tk) simp
  finally have "take (length fe) fe' = fe" .
  with ih drop show ?case by simp
qed

lemma set_finite_elements_result:
  assumes "set_finite_elements mk sp = Inr sp'" and "fe_cell sp = []"
  shows "length (fe_cell sp') = n_cells sp \<and> 0 < n_cells sp \<and>
         total_dofs sp' = (\<Sum>cell \<leftarrow> fe_cell sp'. snd (shape (basis_at_quad cell))) \<and>
         n_cells sp' = n_cells sp \<and> boundary_points sp' = boundary_points sp \<and>
         bound_function_dict sp' = bound_function_dict sp \<and>
         generate_mesh_plot sp' = generate_mesh_plot sp"
proof -
  from assms obtain fe dof where
    loop: "set_finite_elements_loop mk sp [length ([] :: fe2d_cell list)..<n_cells sp] ([], 0) = Inr (fe, dof)"
    and get0: "list_getitem fe 0 \<noteq> Inl IndexError"
    and sp': "sp' = sp\<lparr>fe_cell := fe, total_dofs := dof\<rparr>"
    by (auto simp: set_finite_elements_def bind_err_eq_Inr)
  from set_finite_elements_loop_result[OF loop]
  have "length fe = n_cells sp" and "dof = (\<Sum>cell \<leftarrow> fe. snd (shape (basis_at_quad cell)))"
    by simp_all
  moreover have "fe \<noteq> []"
    using get0 by (auto simp: list_getitem_def list_index_def)
  moreover from this have "0 < length fe"
    by simp
  ultimately show ?thesis
    using sp' by auto
qed

lemma plot_cells_result:
  assumes "plot_cells fe is total_quad = Inr r" and "\<forall>i \<in> set is. i < length fe"
  shows "r = total_quad + (\<Sum>i \<leftarrow> is. fst (shape (quad_actual_coordinates (fe ! i))))"
  using assms
proof (induction "is" arbitrary: total_quad)
  case Nil
  then show ?case by simp
next
  case (Cons i rest)
  from Cons.prems have
    "plot_cells fe rest (total_quad + fst (shape (quad_actual_coordinates (fe ! i)))) = Inr r"
    by (auto simp: bind_err_eq_Inr list_getitem_nonneg column_def split: if_splits)
  from Cons.IH[OF this] Cons.prems(2) show ?case by simp
qed

lemma generate_plot_result:
  assumes "generate_plot sp = Inr sp'" and "length (fe_cell sp) = n_cells sp"
  shows "total_dofs sp' = (\<Sum>cell \<leftarrow> fe_cell sp. fst (shape (quad_actual_coordinates cell))) \<and>
         fe_cell sp' = fe_cell sp \<and>
         n_cells sp' = n_cells sp \<and> boundary_points sp' = boundary_points sp \<and>
         bound_function_dict sp' = bound_function_dict sp \<and>
         generate_mesh_plot sp' = generate_mesh_plot sp"
proof -
  from assms(1) obtain total_quad bound_dof where
    cells: "plot_cells (fe_cell sp) [0..<n_cells sp] 0 = Inr total_quad"
    and sp': "sp' = sp\<lparr>total_dofs := total_quad, total_boundary_dofs := bound_dof\<rparr>"
    by (auto simp: generate_plot_def bind_err_eq_Inr)
  have "total_quad =
      0 + (\<Sum>i \<leftarrow> [0..<n_cells sp]. fst (shape (quad_actual_coordinates (fe_cell sp ! i))))"
    using cells assms(2) by (intro plot_cells_result) auto
  also have "\<dots> = (\<Sum>cell \<leftarrow> map ((!) (fe_cell sp)) [0..<length (fe_cell sp)].
      fst (shape (quad_actual_coordinates cell)))"
    using assms(2) by (simp add: comp_def)
  finally have "total_quad = (\<Sum>cell \<leftarrow> fe_cell sp. fst (shape (quad_actual_coordinates cell)))"
    by (simp only: map_nth)
  then show ?thesis
    using sp' by auto
qed

lemma dirichlet_points_result:
  "dirichlet_points d bound_id pts (x, y) =
     (if pts \<noteq> [] \<and> d bound_id = None then Inl (KeyError bound_id)
      else Inr (x @ pts, y @ map (\<lambda>pt. the (d bound_id) (fst pt) (snd pt)) pts))"
  by (induction pts arbitrary: x y) (auto split: option.splits)

lemma dirichlet_tags_result:
  "dirichlet_tags d bps (x, y) =
     (case find (tag_unserved d) bps of
        Some item \<Rightarrow> Inl (KeyError (fst item))
      | None \<Rightarrow>
          Inr (x @ concat (map snd bps),
               y @ concat (map (\<lambda>(t, pts). map (\<lambda>pt. the (d t) (fst pt) (snd pt)) pts) bps)))"
proof (induction bps arbitrary: x y)
  case Nil
  then show ?case by simp
next
  case (Cons item rest)
  obtain t pts where item: "item = (t, pts)" by (cases item)
  show ?case
  proof (cases "tag_unserved d item")
    case True
    then show ?thesis
      by (simp add: item dirichlet_points_result tag_unserved_iff)
  next
    case False
    then have "dirichlet_points d t pts (x, y) =
        Inr (x @ pts, y @ map (\<lambda>pt. the (d t) (fst pt) (snd pt)) pts)"
      by (auto simp: item dirichlet_points_result tag_unserved_iff)
    with False show ?thesis
      by (simp add: item Cons.IH split: option.splits)
  qed
qed

lemma length_concat_points:
  "length (concat (map snd bps)) = (\<Sum>(t, pts) \<leftarrow> bps. length pts)"
  by (induction bps) (auto simp: case_prod_beta)

lemma generate_dirichlet_boundary_data_result:
  "generate_dirichlet_boundary_data sp =
     (case find (tag_unserved (bound_function_dict sp)) (boundary_points sp) of
        Some item \<Rightarrow> Inl (KeyError (fst item))
      | None \<Rightarrow>
          Inr ((concat (map snd (boundary_points sp)),
                concat (map (\<lambda>(t, pts). map (\<lambda>pt. the (bound_function_dict sp t) (fst pt) (snd pt)) pts)
                  (boundary_points sp))),
               sp\<lparr>total_dirichlet_dofs := (\<Sum>(t, pts) \<leftarrow> boundary_points sp. length pts)\<rparr>))"
  by (simp add: generate_dirichlet_boundary_data_def dirichlet_tags_result length_concat_points
      split: option.splits)

lemma Fespace2D_result:
  assumes "Fespace2D mk cs bps cfg bfd forcing plot = Inr sp"
  shows "n_cells sp = length cs \<and> length (fe_cell sp) = n_cells sp \<and> 0 < n_cells sp \<and>
     boundary_points sp = bps \<and> bound_function_dict sp = bfd \<and> generate_mesh_plot sp = plot \<and>
     find (tag_unserved bfd) bps = None \<and>
     total_dofs sp =
       (if plot then (\<Sum>cell \<leftarrow> fe_cell sp. fst (shape (quad_actual_coordinates cell)))
        else (\<Sum>cell \<leftarrow> fe_cell sp. snd (shape (basis_at_quad cell)))) \<and>
     total_dirichlet_dofs sp = (\<Sum>(t, pts) \<leftarrow> bps. length pts) \<and>
     dirichlet_boundary_data sp =
       Some (concat (map snd bps),
             concat (map (\<lambda>(t, pts). map (\<lambda>pt. the (bfd t) (fst pt) (snd pt)) pts) bps))"
proof -
  define sp0 where "sp0 =
    \<lparr>cells = cs, config = cfg, sp_forcing_function = forcing, boundary_points = bps,
     bound_function_dict = bfd, generate_mesh_plot = plot, total_dofs = 0,
     total_boundary_dofs = 0, total_dirichlet_dofs = 0, n_cells = length cs,
     fe_cell = [], dirichlet_boundary_data = None\<rparr>"
  have body: "bind_err (set_finite_elements mk sp0) (\<lambda>sp1.
        bind_err (if generate_mesh_plot sp1 then generate_plot sp1 else Inr sp1) (\<lambda>sp2.
        bind_err (generate_dirichlet_boundary_data sp2) (\<lambda>(data, sp3).
          Inr (sp3\<lparr>dirichlet_boundary_data := Some data\<rparr>)))) = Inr sp"
    using assms unfolding Fespace2D_def sp0_def[symmetric]
    by (simp split: if_splits)
  obtain sp1 where s1: "set_finite_elements mk sp0 = Inr sp1"
    using body by (cases "set_finite_elements mk sp0") simp_all
  obtain sp2 where s2: "(if generate_mesh_plot sp1 then generate_plot sp1 else Inr sp1) = Inr sp2"
    using body s1
    by (cases "if generate_mesh_plot sp1 then generate_plot sp1 else Inr sp1") simp_all
  obtain data sp3 where s3: "generate_dirichlet_boundary_data sp2 = Inr (data, sp3)"
    using body s1 s2 by (cases "generate_dirichlet_boundary_data sp2") auto
  have sp: "sp = sp3\<lparr>dirichlet_boundary_data := Some data\<rparr>"
    using body s1 s2 s3 by simp
  from set_finite_elements_result[OF s1] have r1:
    "length (fe_cell sp1) = length cs" "0 < length cs"
    "total_dofs sp1 = (\<Sum>cell \<leftarrow> fe_cell sp1. snd (shape (basis_at_quad cell)))"
    "n_cells sp1 = length cs" "boundary_points sp1 = bps" "bound_function_dict sp1 = bfd"
    "generate_mesh_plot sp1 = plot"
    by (simp_all add: sp0_def)
  have r2: "fe_cell sp2 = fe_cell sp1 \<and> n_cells sp2 = length cs \<and> boundary_points sp2 = bps \<and>
    bound_function_dict sp2 = bfd \<and> generate_mesh_plot sp2 = plot \<and>
    total_dofs sp2 =
       (if plot then (\<Sum>cell \<leftarrow> fe_cell sp1. fst (shape (quad_actual_coordinates cell)))
        else (\<Sum>cell \<leftarrow> fe_cell sp1. snd (shape (basis_at_quad cell))))"
  proof (cases plot)
    case True
    then have g: "generate_plot sp1 = Inr sp2"
      using s2 r1(7) by simp
    from generate_plot_result[OF g] r1 True show ?thesis
      by simp
  next
    case False
    then have "sp2 = sp1"
      using s2 r1(7) by simp
    then show ?thesis
      using False r1 by simp
  qed
  have none: "find (tag_unserved bfd) bps = None"
    using s3 r2 by (auto simp: generate_dirichlet_boundary_data_result split: option.splits)
  have r3: "data = (concat (map snd bps),
             concat (map (\<lambda>(t, pts). map (\<lambda>pt. the (bfd t) (fst pt) (snd pt)) pts) bps))"
    "sp3 = sp2\<lparr>total_dirichlet_dofs := (\<Sum>(t, pts) \<leftarrow> bps. length pts)\<rparr>"
    using s3 r2 none by (auto simp: generate_dirichlet_boundary_data_result)
  show ?thesis
    using r1(1,2) r2 none by (simp add: sp r3)
qed

lemma length_concat_values:
  "length (concat (map (\<lambda>(t, pts). map (f t) pts) bps)) = (\<Sum>(t, pts) \<leftarrow> bps. length pts)"
  by (induction bps) (auto simp: case_prod_beta)

lemma Fespace2D_fe_cell_length:
  assumes "Fespace2D mk cs bps cfg bfd forcing plot = Inr sp"
  shows "length (fe_cell sp) = n_cells sp" and "0 < n_cells sp" and "n_cells sp = length cs"
  using Fespace2D_result[OF assms] by auto

lemma space_ex_plot_constructed:
  "Fespace2D FE2D_Cell_ex [array2 [[0, 0], [1, 0], [1, 1], [0, 1]]]
     [(1000, [(0, 0), (1, 0)]), (1001, [(1, 1)])] config_ex
     [1000 \<mapsto> (\<lambda>x y. x * y), 1001 \<mapsto> (\<lambda>x y. x - y)] (\<lambda>x y. x + y) True =
   Inr (space_ex\<lparr>generate_mesh_plot := True, total_boundary_dofs := 5\<rparr>)"
  by (simp add: Fespace2D_def set_finite_elements_def generate_dirichlet_boundary_data_def
      generate_plot_def column_def
      FE2D_Cell_ex_def cell_ex_def space_ex_def config_ex_def list_getitem_def list_index_def
      array2_def)

text \<open>
  C8. When the constructor returns a space, \<^verbatim>\<open>total_dofs\<close> is the sum over the
  cells of the second dimension of \<^verbatim>\<open>basis_at_quad\<close>, and \<^verbatim>\<open>total_dirichlet_dofs\<close> is
  the number of boundary points, the sum over the tags of the number of points
  of the tag; the extracted coordinate and value sequences have that length. With
  \<^verbatim>\<open>generate_mesh_plot\<close> set, \<^verbatim>\<open>generate_plot\<close> assigns \<^verbatim>\<open>total_dofs\<close> again, as the
  sum of the first dimensions of \<^verbatim>\<open>quad_actual_coordinates\<close>; the two sums agree
  for cells of consistent shapes, which is assumed of \<^verbatim>\<open>FE2D_Cell\<close> in that case.
\<close>

theorem total_dofs_after_construction:
  assumes "Fespace2D FE2D_Cell cs bps cfg bfd forcing plot = Inr sp"
    and "plot \<longrightarrow> (\<forall>cell \<in> set (fe_cell sp). cell_shapes_ok cell)"
  shows "length (fe_cell sp) = length cs \<and>
         total_dofs sp = (\<Sum>cell \<leftarrow> fe_cell sp. snd (shape (basis_at_quad cell))) \<and>
         total_dirichlet_dofs sp = (\<Sum>(tag, pts) \<leftarrow> bps. length pts) \<and>
         (\<exists>x y. dirichlet_boundary_data sp = Some (x, y) \<and>
                length x = total_dirichlet_dofs sp \<and> length y = total_dirichlet_dofs sp)"
proof -
  note r = Fespace2D_result[OF assms(1)]
  have dofs: "total_dofs sp = (\<Sum>cell \<leftarrow> fe_cell sp. snd (shape (basis_at_quad cell)))"
  proof (cases plot)
    case True
    then have "\<forall>cell \<in> set (fe_cell sp).
        fst (shape (quad_actual_coordinates cell)) = snd (shape (basis_at_quad cell))"
      using assms(2) by (simp add: cell_shapes_ok_def)
    then have "(\<Sum>cell \<leftarrow> fe_cell sp. fst (shape (quad_actual_coordinates cell))) =
        (\<Sum>cell \<leftarrow> fe_cell sp. snd (shape (basis_at_quad cell)))"
      by (auto intro!: arg_cong[where f = sum_list])
    then show ?thesis
      using r True by simp
  next
    case False
    then show ?thesis
      using r by simp
  qed
  show ?thesis
    using r dofs by (simp add: length_concat_points length_concat_values)
qed

text \<open>The space of the example, built with the plot: two quadrature points, three boundary points.\<close>

theorem total_dofs_after_construction_witness:
  "Fespace2D FE2D_Cell_ex [array2 [[0, 0], [1, 0], [1, 1], [0, 1]]]
     [(1000, [(0, 0), (1, 0)]), (1001, [(1, 1)])] config_ex
     [1000 \<mapsto> (\<lambda>x y. x * y), 1001 \<mapsto> (\<lambda>x y. x - y)] (\<lambda>x y. x + y) True =
   Inr (space_ex\<lparr>generate_mesh_plot := True, total_boundary_dofs := 5\<rparr>) \<and>
   total_dofs (space_ex\<lparr>generate_mesh_plot := True, total_boundary_dofs := 5\<rparr>) = 2 \<and>
   total_dirichlet_dofs (space_ex\<lparr>generate_mesh_plot := True, total_boundary_dofs := 5\<rparr>) = 3"
proof -
  have q: "snd (shape (basis_at_quad cell_ex)) = 2"
    by (simp add: cell_ex_def array2_def)
  show ?thesis
    using total_dofs_after_construction[OF space_ex_plot_constructed]
    by (simp add: space_ex_plot_constructed space_ex_cells cell_ex_ok q)
qed

text \<open>
  C9 (amended). A boundary tag that has at least one point in
  \<^verbatim>\<open>boundary_points\<close> and no entry in \<^verbatim>\<open>bound_function_dict\<close> makes
  \<^verbatim>\<open>generate_dirichlet_boundary_data\<close> raise \<^verbatim>\<open>KeyError\<close>, at the first such tag in
  the order of iteration, and so the constructor fails. The dictionary is
  indexed once per point: a tag without points is never looked up.
\<close>

theorem missing_boundary_function_raises:
  assumes "(tag, pts) \<in> set bps" and "pts \<noteq> []" and "bfd tag = None"
    and "boundary_points sp = bps" and "bound_function_dict sp = bfd"
  shows "(\<exists>t ps. find (tag_unserved bfd) bps = Some (t, ps) \<and>
            generate_dirichlet_boundary_data sp = Inl (KeyError t)) \<and>
         isl (Fespace2D FE2D_Cell cs bps cfg bfd forcing plot)"
proof -
  have "tag_unserved bfd (tag, pts)"
    using assms(2,3) by (simp add: tag_unserved_iff)
  then have "find (tag_unserved bfd) bps \<noteq> None"
    using assms(1) by (auto simp: find_None_iff)
  then obtain t ps where found: "find (tag_unserved bfd) bps = Some (t, ps)"
    by (cases "find (tag_unserved bfd) bps") auto
  then have "generate_dirichlet_boundary_data sp = Inl (KeyError t)"
    using assms(4,5) by (simp add: generate_dirichlet_boundary_data_result)
  moreover have "isl (Fespace2D FE2D_Cell cs bps cfg bfd forcing plot)"
  proof (cases "Fespace2D FE2D_Cell cs bps cfg bfd forcing plot")
    case (Inl e)
    then show ?thesis by simp
  next
    case (Inr sp')
    from Fespace2D_result[OF this] found show ?thesis by simp
  qed
  ultimately show ?thesis
    using found by blast
qed

text \<open>The example without the boundary function of the tag \<open>1001\<close>.\<close>

theorem missing_boundary_function_raises_witness:
  "find (tag_unserved [1000 \<mapsto> (\<lambda>x y. x * y)]) (boundary_points space_ex) = Some (1001, [(1, 1)]) \<and>
   generate_dirichlet_boundary_data (space_ex\<lparr>bound_function_dict := [1000 \<mapsto> (\<lambda>x y. x * y)]\<rparr>) =
     Inl (KeyError 1001) \<and>
   isl (Fespace2D FE2D_Cell_ex [array2 [[0, 0], [1, 0], [1, 1], [0, 1]]]
     [(1000, [(0, 0), (1, 0)]), (1001, [(1, 1)])] config_ex
     [1000 \<mapsto> (\<lambda>x y. x * y)] (\<lambda>x y. x + y) False)"
  using missing_boundary_function_raises[of 1001 "[(1, 1)]"
      "[(1000, [(0, 0), (1, 0)]), (1001, [(1, 1)])]" "[1000 \<mapsto> (\<lambda>x y. x * y)]"
      "space_ex\<lparr>bound_function_dict := [1000 \<mapsto> (\<lambda>x y. x * y)]\<rparr>"
      FE2D_Cell_ex "[array2 [[0, 0], [1, 0], [1, 1], [0, 1]]]" config_ex "\<lambda>x y. x + y" False]
  by (simp add: space_ex_def tag_unserved_iff)

text \<open>
  The claim C9 as stated fails for a tag without points: the tag \<open>1002\<close> is in
  \<^verbatim>\<open>boundary_points\<close>, the dictionary is empty, and both the extraction and the
  constructor succeed.
\<close>

theorem empty_boundary_tag_is_skipped:
  "generate_dirichlet_boundary_data
     (space_ex\<lparr>boundary_points := [(1002, [])], bound_function_dict := Map.empty\<rparr>) =
     Inr (([], []),
          space_ex\<lparr>boundary_points := [(1002, [])], bound_function_dict := Map.empty,
                    total_dirichlet_dofs := 0\<rparr>) \<and>
   \<not> isl (Fespace2D FE2D_Cell_ex [array2 [[0, 0], [1, 0], [1, 1], [0, 1]]]
     [(1002, [])] config_ex Map.empty (\<lambda>x y. x + y) False)"
  by (simp add: Fespace2D_def set_finite_elements_def generate_dirichlet_boundary_data_def
      FE2D_Cell_ex_def config_ex_def list_getitem_def list_index_def)

section \<open>The one-dimensional test functions\<close>

lemma test_fcnx_loop_result:
  assumes "\<forall>n \<in> set ns. 1 \<le> n"
  shows "test_fcnx_loop J ns x test_total = Inr (test_total @ map (\<lambda>n. test_row J n x) ns)"
  using assms
  by (induction ns arbitrary: test_total)
     (simp_all add: jacobi_wrapper_def jacobi_wrapper0_def test_row_def)

lemma test_fcny_loop_result:
  assumes "\<forall>n \<in> set ns. 1 \<le> n"
  shows "test_fcny_loop J ns y test_total = Inr (test_total @ map (\<lambda>n. test_row J n y) ns)"
  using assms
  by (induction ns arbitrary: test_total)
     (simp_all add: jacobi_wrapper_def jacobi_wrapper0_def test_row_def)

lemma test_fcnx_result: "test_fcnx J n x = Inr (map (\<lambda>k. test_row J k x) [1..int n])"
  by (simp add: test_fcnx_def test_fcnx_loop_result)

lemma test_fcny_result: "test_fcny J n y = Inr (map (\<lambda>k. test_row J k y) [1..int n])"
  by (simp add: test_fcny_def test_fcny_loop_result)

lemma upto_nth_from_1: "k < n \<Longrightarrow> [1..int n] ! k = int k + 1"
  by (simp add: nth_upto)

lemma test_row_nth:
  assumes "1 \<le> k" and "p < length x"
  shows "test_row J (int k) x ! p =
     J (k + 1) (- 1 / 2) (- 1 / 2) (x ! p) / J (k + 1) (- 1 / 2) (- 1 / 2) 1 -
     J (k - 1) (- 1 / 2) (- 1 / 2) (x ! p) / J (k - 1) (- 1 / 2) (- 1 / 2) 1"
proof -
  have "nat (int k + 1) = k + 1" and "nat (int k - 1) = k - 1"
    using assms(1) by simp_all
  then show ?thesis
    using assms(2) by (simp add: test_row_def np_sub_def np_div_def)
qed

lemma length_test_row: "length (test_row J n x) = length x"
  by (simp add: test_row_def np_sub_def np_div_def)

text \<open>
  C6. For every index \<open>k\<close> with \<open>1 \<le> k \<le> n\<close> and every evaluation point, row \<open>k\<close>
  of \<^verbatim>\<open>test_fcnx\<close> and of \<^verbatim>\<open>test_fcny\<close> (at list position \<open>k - 1\<close>) is
  \<open>P\<^bsub>k+1\<^esub>(x) / P\<^bsub>k+1\<^esub>(1) - P\<^bsub>k-1\<^esub>(x) / P\<^bsub>k-1\<^esub>(1)\<close>, where \<open>P\<^bsub>m\<^esub>\<close> is the Jacobi
  polynomial of degree \<open>m\<close> with the parameters \<open>a = b = -1/2\<close>; both functions
  return the same array of \<open>n\<close> rows.
\<close>

theorem test_fcn_normalised_difference:
  assumes "1 \<le> k" and "k \<le> n" and "p < length x"
  shows "\<exists>T. test_fcnx J n x = Inr T \<and> test_fcny J n x = Inr T \<and> length T = n \<and>
           length (T ! (k - 1)) = length x \<and>
           T ! (k - 1) ! p =
             J (k + 1) (- 1 / 2) (- 1 / 2) (x ! p) / J (k + 1) (- 1 / 2) (- 1 / 2) 1 -
             J (k - 1) (- 1 / 2) (- 1 / 2) (x ! p) / J (k - 1) (- 1 / 2) (- 1 / 2) 1"
proof -
  have idx: "k - 1 < n" and shift: "int (k - 1) + 1 = int k"
    using assms(1,2) by simp_all
  have "map (\<lambda>k. test_row J k x) [1..int n] ! (k - 1) = test_row J (int k) x"
    using idx assms(1) by (simp add: upto_nth_from_1 of_nat_diff)
  then show ?thesis
    using assms(1,3) by (simp add: test_fcnx_result test_fcny_result test_row_nth length_test_row)
qed

text \<open>
  With the Jacobi polynomials themselves, \<open>P\<^bsub>2\<^esub>(x) / P\<^bsub>2\<^esub>(1) - P\<^bsub>0\<^esub>(x) / P\<^bsub>0\<^esub>(1)\<close> is
  \<open>2 x\<^sup>2 - 2\<close>, which is \<open>-3/2\<close> at \<open>x = 1/2\<close>.
\<close>

lemma jacobi_poly_values:
  "jacobi_poly (Suc (Suc 0)) (- (1 / 2)) (- (1 / 2)) (1 / 2) = - 3 / 16"
  "jacobi_poly (Suc (Suc 0)) (- (1 / 2)) (- (1 / 2)) 1 = 3 / 8"
  "jacobi_poly 0 (- (1 / 2)) (- (1 / 2)) (1 / 2) = 1"
  "jacobi_poly 0 (- (1 / 2)) (- (1 / 2)) 1 = 1"
  by code_simp+

theorem test_fcn_normalised_difference_witness:
  "\<exists>T. test_fcnx jacobi_poly 2 [0, 1 / 2, 1] = Inr T \<and>
       test_fcny jacobi_poly 2 [0, 1 / 2, 1] = Inr T \<and> length T = 2 \<and>
       length (T ! 0) = 3 \<and> T ! 0 ! 1 = - 3 / 2"
  using test_fcn_normalised_difference[of 1 2 1 "[0, 1 / 2, 1]" jacobi_poly]
  by (simp add: jacobi_poly_values numeral_3_eq_3)

lemma jacobi_term_result:
  "0 \<le> m \<Longrightarrow> 0 \<le> k \<Longrightarrow> jacobi_term J c m a b x k = Inr (jacobi_quotient J c m a b x k)"
  by (simp add: jacobi_term_def jacobi_wrapper_def jacobi_wrapper0_def jacobi_quotient_def)

lemma dtest_row_result:
  "1 \<le> n \<Longrightarrow> dtest_row J n x = Inr (d1test_row J n x, d2test_row J n x)"
  by (simp add: dtest_row_def d1test_row_def d2test_row_def jacobi_term_result)

lemma dtest_fcn_loop_result:
  assumes "\<forall>n \<in> set ns. 1 \<le> n"
  shows "dtest_fcn_loop J ns x (d1, d2) =
     Inr (d1 @ map (\<lambda>n. d1test_row J n x) ns, d2 @ map (\<lambda>n. d2test_row J n x) ns)"
  using assms
  by (induction ns arbitrary: d1 d2) (simp_all add: dtest_row_result)

lemma dtest_fcn_result:
  "dtest_fcn J n x =
     Inr (map (\<lambda>k. d1test_row J k x) [1..int n], map (\<lambda>k. d2test_row J k x) [1..int n])"
  by (simp add: dtest_fcn_def dtest_fcn_loop_result)

lemma jacobi_quotient_nth:
  "p < length x \<Longrightarrow>
   jacobi_quotient J c m a b x k ! p = c * J (nat m) a b (x ! p) / J (nat k) (- 1 / 2) (- 1 / 2) 1"
  by (simp add: jacobi_quotient_def np_div_def np_scale_def)

lemma length_jacobi_quotient: "length (jacobi_quotient J c m a b x k) = length x"
  by (simp add: jacobi_quotient_def np_div_def np_scale_def)

lemma length_d1test_row: "length (d1test_row J n x) = length x"
  by (simp add: d1test_row_def np_sub_def length_jacobi_quotient)

lemma length_d2test_row: "length (d2test_row J n x) = length x"
  by (simp add: d2test_row_def np_sub_def length_jacobi_quotient)

lemma d2test_row_low:
  assumes "1 \<le> k" and "k \<le> 2" and "p < length x"
  shows "d2test_row J (int k) x ! p =
     real ((k + 2) * (k + 1)) / 4 * J (k - 1) (3 / 2) (3 / 2) (x ! p) /
       J (k + 1) (- 1 / 2) (- 1 / 2) 1"
proof -
  have "k = 1 \<or> k = 2"
    using assms(1,2) by auto
  then have branch: "int k = 1 \<or> int k = 2"
    by auto
  have degrees: "nat (int k - 1) = k - 1" "nat (int k + 1) = k + 1"
    using assms(1) by simp_all
  have coeff: "real_of_int ((int k + 2) * (int k + 1)) = real ((k + 2) * (k + 1))"
    by (simp add: algebra_simps)
  have "d2test_row J (int k) x =
      jacobi_quotient J (real ((k + 2) * (k + 1)) / (2 * 2)) (int k - 1) (3 / 2) (3 / 2) x (int k + 1)"
    unfolding d2test_row_def using branch by (simp only: if_True coeff)
  then show ?thesis
    using assms(3) by (simp add: jacobi_quotient_nth degrees)
qed

lemma d2test_row_high:
  assumes "3 \<le> k" and "p < length x"
  shows "d2test_row J (int k) x ! p =
     real ((k + 2) * (k + 1)) / 4 * J (k - 1) (3 / 2) (3 / 2) (x ! p) /
       J (k + 1) (- 1 / 2) (- 1 / 2) 1 -
     real (k * (k - 1)) / 4 * J (k - 3) (3 / 2) (3 / 2) (x ! p) /
       J (k - 1) (- 1 / 2) (- 1 / 2) 1"
proof -
  have branch: "\<not> (int k = 1 \<or> int k = 2)"
    using assms(1) by auto
  have degrees: "nat (int k - 1) = k - 1" "nat (int k + 1) = k + 1" "nat (int k - 3) = k - 3"
    using assms(1) by simp_all
  have coeff: "real_of_int ((int k + 2) * (int k + 1)) = real ((k + 2) * (k + 1))"
    "real_of_int (int k * (int k - 1)) = real (k * (k - 1))"
    using assms(1) by (simp_all add: of_nat_diff algebra_simps)
  have "d2test_row J (int k) x =
      np_sub
        (jacobi_quotient J (real ((k + 2) * (k + 1)) / (2 * 2)) (int k - 1) (3 / 2) (3 / 2) x (int k + 1))
        (jacobi_quotient J (real (k * (k - 1)) / (2 * 2)) (int k - 3) (3 / 2) (3 / 2) x (int k - 1))"
    unfolding d2test_row_def using branch by (simp only: if_False coeff)
  then show ?thesis
    using assms(2) by (simp add: np_sub_def length_jacobi_quotient jacobi_quotient_nth degrees)
qed

text \<open>
  C7. \<^verbatim>\<open>dtest_fcn\<close> never fails, so no branch asks for a Jacobi polynomial of
  negative degree, and row \<open>k\<close> of its second derivatives is, for \<open>k = 1\<close> and
  \<open>k = 2\<close>, \<open>((k+2)(k+1)/4) P\<^bsup>(3/2,3/2)\<^esup>\<^bsub>k-1\<^esub>(x) / P\<^bsup>(-1/2,-1/2)\<^esup>\<^bsub>k+1\<^esub>(1)\<close> with no
  subtraction and, for every \<open>k \<ge> 3\<close>, that term minus
  \<open>(k(k-1)/4) P\<^bsup>(3/2,3/2)\<^esup>\<^bsub>k-3\<^esub>(x) / P\<^bsup>(-1/2,-1/2)\<^esup>\<^bsub>k-1\<^esub>(1)\<close>.
\<close>

theorem dtest_fcn_second_derivative_branches:
  "\<exists>D1 D2. dtest_fcn J n x = Inr (D1, D2) \<and> length D1 = n \<and> length D2 = n \<and>
     (\<forall>k p. 1 \<le> k \<and> k \<le> n \<and> p < length x \<longrightarrow>
        (k \<le> 2 \<longrightarrow>
           D2 ! (k - 1) ! p =
             real ((k + 2) * (k + 1)) / 4 * J (k - 1) (3 / 2) (3 / 2) (x ! p) /
               J (k + 1) (- 1 / 2) (- 1 / 2) 1) \<and>
        (3 \<le> k \<longrightarrow>
           D2 ! (k - 1) ! p =
             real ((k + 2) * (k + 1)) / 4 * J (k - 1) (3 / 2) (3 / 2) (x ! p) /
               J (k + 1) (- 1 / 2) (- 1 / 2) 1 -
             real (k * (k - 1)) / 4 * J (k - 3) (3 / 2) (3 / 2) (x ! p) /
               J (k - 1) (- 1 / 2) (- 1 / 2) 1))"
proof -
  define D1 where "D1 = map (\<lambda>k. d1test_row J k x) [1..int n]"
  define D2 where "D2 = map (\<lambda>k. d2test_row J k x) [1..int n]"
  have res: "dtest_fcn J n x = Inr (D1, D2)"
    by (simp add: dtest_fcn_result D1_def D2_def)
  have len: "length D1 = n" "length D2 = n"
    by (simp_all add: D1_def D2_def)
  have row: "D2 ! (k - 1) = d2test_row J (int k) x" if "1 \<le> k" and "k \<le> n" for k
  proof -
    have "k - 1 < n"
      using that by simp
    then show ?thesis
      using that(1) by (simp add: D2_def upto_nth_from_1 of_nat_diff)
  qed
  have low: "D2 ! (k - 1) ! p =
             real ((k + 2) * (k + 1)) / 4 * J (k - 1) (3 / 2) (3 / 2) (x ! p) /
               J (k + 1) (- 1 / 2) (- 1 / 2) 1"
    if "1 \<le> k" and "k \<le> n" and "p < length x" and "k \<le> 2" for k p
    using that by (simp only: row d2test_row_low)
  have high: "D2 ! (k - 1) ! p =
             real ((k + 2) * (k + 1)) / 4 * J (k - 1) (3 / 2) (3 / 2) (x ! p) /
               J (k + 1) (- 1 / 2) (- 1 / 2) 1 -
             real (k * (k - 1)) / 4 * J (k - 3) (3 / 2) (3 / 2) (x ! p) /
               J (k - 1) (- 1 / 2) (- 1 / 2) 1"
    if "1 \<le> k" and "k \<le> n" and "p < length x" and "3 \<le> k" for k p
    using that by (simp only: row d2test_row_high)
  from res len low high show ?thesis
    by blast
qed

text \<open>
  With the Jacobi polynomials themselves and three test functions at \<open>x = 1/2\<close>:
  the second derivatives of \<open>2 x\<^sup>2 - 2\<close> and of \<open>8 x\<^sup>4 - 10 x\<^sup>2 + 2\<close> are both \<open>4\<close>.
\<close>

theorem dtest_fcn_second_derivative_branches_witness:
  "\<exists>D1 D2. dtest_fcn jacobi_poly 3 [1 / 2] = Inr (D1, D2) \<and> length D1 = 3 \<and> length D2 = 3 \<and>
     D2 ! 0 ! 0 = 4 \<and> D2 ! 2 ! 0 = 4"
proof -
  from dtest_fcn_second_derivative_branches[of jacobi_poly 3 "[1 / 2]"]
  obtain D1 D2 where res: "dtest_fcn jacobi_poly 3 [1 / 2] = Inr (D1, D2)"
    "length D1 = 3" "length D2 = 3"
    and rows: "\<And>k p. 1 \<le> k \<and> k \<le> 3 \<and> p < length [1 / 2 :: real] \<Longrightarrow>
        (k \<le> 2 \<longrightarrow>
           D2 ! (k - 1) ! p =
             real ((k + 2) * (k + 1)) / 4 * jacobi_poly (k - 1) (3 / 2) (3 / 2) ([1 / 2] ! p) /
               jacobi_poly (k + 1) (- 1 / 2) (- 1 / 2) 1) \<and>
        (3 \<le> k \<longrightarrow>
           D2 ! (k - 1) ! p =
             real ((k + 2) * (k + 1)) / 4 * jacobi_poly (k - 1) (3 / 2) (3 / 2) ([1 / 2] ! p) /
               jacobi_poly (k + 1) (- 1 / 2) (- 1 / 2) 1 -
             real (k * (k - 1)) / 4 * jacobi_poly (k - 3) (3 / 2) (3 / 2) ([1 / 2] ! p) /
               jacobi_poly (k - 1) (- 1 / 2) (- 1 / 2) 1)"
    by blast
  have "D2 ! (1 - 1) ! 0 =
      real ((1 + 2) * (1 + 1)) / 4 * jacobi_poly (1 - 1) (3 / 2) (3 / 2) ([1 / 2] ! 0) /
        jacobi_poly (1 + 1) (- 1 / 2) (- 1 / 2) 1"
    using rows[of 1 0] by simp
  also have "\<dots> = 4"
    by code_simp
  finally have first: "D2 ! 0 ! 0 = 4"
    by simp
  have "D2 ! (3 - 1) ! 0 =
      real ((3 + 2) * (3 + 1)) / 4 * jacobi_poly (3 - 1) (3 / 2) (3 / 2) ([1 / 2] ! 0) /
        jacobi_poly (3 + 1) (- 1 / 2) (- 1 / 2) 1 -
      real (3 * (3 - 1)) / 4 * jacobi_poly (3 - 3) (3 / 2) (3 / 2) ([1 / 2] ! 0) /
        jacobi_poly (3 - 1) (- 1 / 2) (- 1 / 2) 1"
    using rows[of 3 0] by simp
  also have "\<dots> = 4"
    by code_simp
  finally have third: "D2 ! 2 ! 0 = 4"
    by simp
  from res first third show ?thesis
    by blast
qed

section \<open>The two-dimensional evaluators\<close>

lemma isqrt_upto_square_le: "isqrt_upto N k * isqrt_upto N k \<le> N"
  by (induction k) simp_all

lemma isqrt_upto_greatest: "j \<le> k \<Longrightarrow> j * j \<le> N \<Longrightarrow> j \<le> isqrt_upto N k"
proof (induction k)
  case 0
  then show ?case by simp
next
  case (Suc k)
  then show ?case
    by (cases "j = Suc k") auto
qed

lemma isqrt_square_le: "isqrt N * isqrt N \<le> N"
  by (simp add: isqrt_def isqrt_upto_square_le)

lemma isqrt_greatest: "j * j \<le> N \<Longrightarrow> j \<le> isqrt N"
proof -
  assume a: "j * j \<le> N"
  have "j \<le> j * j"
    by (cases j) simp_all
  from this a have "j \<le> N" by (rule le_trans)
  with a show ?thesis
    by (simp add: isqrt_def isqrt_upto_greatest)
qed

lemma isqrt_square [simp]: "isqrt (n * n) = n"
proof (rule antisym)
  have "isqrt (n * n) * isqrt (n * n) \<le> n * n"
    by (rule isqrt_square_le)
  then show "isqrt (n * n) \<le> n"
  proof (rule contrapos_pp)
    assume "\<not> isqrt (n * n) \<le> n"
    then have lt: "n < isqrt (n * n)" by simp
    have "n * n < isqrt (n * n) * isqrt (n * n)"
      using lt by (intro mult_strict_mono') simp_all
    then show "\<not> isqrt (n * n) * isqrt (n * n) \<le> n * n" by simp
  qed
  show "n \<le> isqrt (n * n)"
    by (rule isqrt_greatest) simp
qed



lemma np_mul_same_length:
  "length xs = length ys \<Longrightarrow> np_mul xs ys = Inr (map2 (\<lambda>u v. u * v) xs ys)"
  by (simp add: np_mul_def)

lemma map_err_np_mul:
  assumes "\<forall>y \<in> set ys. length y = length row"
  shows "map_err (np_mul row) ys = Inr (map (\<lambda>y. map2 (\<lambda>u v. u * v) row y) ys)"
  using assms by (induction ys) (simp_all add: np_mul_same_length)

lemma block_index:
  fixes n i r :: nat
  assumes "n * i \<le> r" and "r < n * (i + 1)"
  shows "r div n = i" and "r mod n = r - n * i"
proof -
  show d: "r div n = i"
    using assms div_nat_eqI[of n i r] by simp
  show "r mod n = r - n * i"
    using d by (metis minus_mult_div_eq_mod)
qed

lemma assemble_result:
  assumes "\<forall>i \<in> set is. i < n" and "length fx = n" and "length fy = n"
    and "\<forall>row \<in> set fx. length row = P" and "\<forall>row \<in> set fy. length row = P"
    and "shape vals = (N, P)" and "n * n \<le> N"
  shows "\<exists>V. assemble n fx fy is vals = Inr V \<and> shape V = (N, P) \<and>
           (\<forall>r c. entry V r c =
              (if \<exists>i \<in> set is. in_block n i r
               then map2 (\<lambda>u v. u * v) (fx ! (r div n)) (fy ! (r mod n)) ! c
               else entry vals r c))"
  using assms(1,6)
proof (induction "is" arbitrary: vals)
  case Nil
  then show ?case by simp
next
  case (Cons i rest)
  have i: "i < n" using Cons.prems(1) by simp
  have row: "list_getitem fx (int i) = Inr (fx ! i)"
    using i assms(2) by (simp add: list_getitem_nonneg)
  have "length (fx ! i) = P"
    using i assms(2,4) by simp
  then have block: "map_err (np_mul (fx ! i)) fy =
      Inr (map (\<lambda>y. map2 (\<lambda>u v. u * v) (fx ! i) y) fy)"
    using assms(5) by (intro map_err_np_mul) simp
  define blk where "blk = map (\<lambda>y. map2 (\<lambda>u v. u * v) (fx ! i) y) fy"
  define vals' where "vals' = vals\<lparr>entry := (\<lambda>r c.
      if n * i \<le> r \<and> r < n * (i + 1) then blk ! (r - n * i) ! c else entry vals r c)\<rparr>"
  have "n * (i + 1) \<le> n * n"
    using i by (intro mult_le_mono2) simp
  then have hi: "n * (i + 1) \<le> N"
    using assms(7) by simp
  have widths: "\<forall>row \<in> set blk. length row = P"
    using assms(5) \<open>length (fx ! i) = P\<close> by (auto simp: blk_def)
  have rows: "length blk = n"
    using assms(3) by (simp add: blk_def)
  have set: "setitem_rows vals (n * i) (n * (i + 1)) blk = Inr vals'"
    using hi widths Cons.prems(2) rows
    by (simp add: setitem_rows_def vals'_def)
  have step: "assemble n fx fy (i # rest) vals = assemble n fx fy rest vals'"
    using set by (simp add: row block blk_def[symmetric])
  have "shape vals' = (N, P)"
    using Cons.prems(2) by (simp add: vals'_def)
  with Cons.IH[of vals'] Cons.prems(1) obtain V where
    V: "assemble n fx fy rest vals' = Inr V" "shape V = (N, P)"
    and entries: "\<And>r c. entry V r c =
              (if \<exists>i \<in> set rest. in_block n i r
               then map2 (\<lambda>u v. u * v) (fx ! (r div n)) (fy ! (r mod n)) ! c
               else entry vals' r c)"
    by auto
  have here: "entry vals' r c =
      (if in_block n i r then map2 (\<lambda>u v. u * v) (fx ! (r div n)) (fy ! (r mod n)) ! c
       else entry vals r c)" for r c
  proof (cases "in_block n i r")
    case True
    then have b: "n * i \<le> r" "r < n * (i + 1)"
      by (simp_all add: in_block_def)
    from block_index[OF b] have dm: "r div n = i" "r mod n = r - n * i" .
    have "r - n * i < length fy"
      using b assms(3) by (simp add: algebra_simps) 
    then have "blk ! (r - n * i) = map2 (\<lambda>u v. u * v) (fx ! i) (fy ! (r - n * i))"
      by (simp add: blk_def)
    then show ?thesis
      using True b by (simp add: vals'_def dm)
  next
    case False
    then show ?thesis
      unfolding vals'_def in_block_def by auto
  qed
  have "entry V r c =
      (if \<exists>i \<in> set (i # rest). in_block n i r
       then map2 (\<lambda>u v. u * v) (fx ! (r div n)) (fy ! (r mod n)) ! c
       else entry vals r c)" for r c
    by (simp add: entries here)
  with V step show ?case
    by auto
qed

lemma assemble_zeros:
  assumes "length fx = n" and "length fy = n"
    and "\<forall>row \<in> set fx. length row = P" and "\<forall>row \<in> set fy. length row = P"
    and "n * n \<le> N"
  shows "\<exists>V. assemble n fx fy [0..<n] (zeros (N, P)) = Inr V \<and> shape V = (N, P) \<and>
           tensor_rows n P fx fy V \<and> (\<forall>r p. n * n \<le> r \<longrightarrow> entry V r p = 0)"
proof -
  from assemble_result[of "[0..<n]" n fx fy P "zeros (N, P)" N] assms
  obtain V where V: "assemble n fx fy [0..<n] (zeros (N, P)) = Inr V" "shape V = (N, P)"
    and entries: "\<And>r c. entry V r c =
              (if \<exists>i \<in> set [0..<n]. in_block n i r
               then map2 (\<lambda>u v. u * v) (fx ! (r div n)) (fy ! (r mod n)) ! c
               else entry (zeros (N, P)) r c)"
    by (auto simp: zeros_def)
  have inside: "entry V (i * n + j) p = fx ! i ! p * fy ! j ! p"
    if "i < n" and "j < n" and "p < P" for i j p
  proof -
    have blk: "in_block n i (i * n + j)"
      using that(2) by (simp add: in_block_def algebra_simps)
    then have "\<exists>k \<in> set [0..<n]. in_block n k (i * n + j)"
      using that(1) by auto
    moreover have "(i * n + j) div n = i" "(i * n + j) mod n = j"
      using that(2) by simp_all
    moreover have "p < length (fx ! i)" "p < length (fy ! j)"
      using that assms(1-4) by simp_all
    ultimately show ?thesis
      by (simp add: entries)
  qed
  have outside: "entry V r p = 0" if "n * n \<le> r" for r p
  proof -
    have "\<not> (\<exists>i \<in> set [0..<n]. in_block n i r)"
    proof
      assume "\<exists>i \<in> set [0..<n]. in_block n i r"
      then obtain i where i: "i < n" "r < n * (i + 1)"
        by (auto simp: in_block_def)
      have "n * (i + 1) \<le> n * n"
        using i(1) by (intro mult_le_mono2) simp
      with i(2) that show False by simp
    qed
    then show ?thesis
      by (simp add: entries zeros_def)
  qed
  from V inside outside show ?thesis
    unfolding tensor_rows_iff by blast
qed

lemma test_rows_shape:
  "length (map (\<lambda>k. test_row J k x) [1..int n]) = n"
  "\<forall>row \<in> set (map (\<lambda>k. test_row J k x) [1..int n]). length row = length x"
  by (simp_all add: length_test_row)

lemma d1test_rows_shape:
  "length (map (\<lambda>k. d1test_row J k x) [1..int n]) = n"
  "\<forall>row \<in> set (map (\<lambda>k. d1test_row J k x) [1..int n]). length row = length x"
  by (simp_all add: length_d1test_row)

lemma d2test_rows_shape:
  "length (map (\<lambda>k. d2test_row J k x) [1..int n]) = n"
  "\<forall>row \<in> set (map (\<lambda>k. d2test_row J k x) [1..int n]). length row = length x"
  by (simp_all add: length_d2test_row)

lemma evaluators_result:
  fixes J :: jacobi and N :: nat and xi eta :: "real list"
  defines "n \<equiv> isqrt N"
  defines "TX \<equiv> map (\<lambda>k. test_row J k xi) [1..int n]"
    and "TY \<equiv> map (\<lambda>k. test_row J k eta) [1..int n]"
    and "D1X \<equiv> map (\<lambda>k. d1test_row J k xi) [1..int n]"
    and "D1Y \<equiv> map (\<lambda>k. d1test_row J k eta) [1..int n]"
    and "D2X \<equiv> map (\<lambda>k. d2test_row J k xi) [1..int n]"
    and "D2Y \<equiv> map (\<lambda>k. d2test_row J k eta) [1..int n]"
  assumes "length eta = length xi"
  shows "\<exists>V. value_at J \<lparr>num_shape_functions = N\<rparr> xi eta = Inr V \<and> shape V = (N, length xi) \<and>
           tensor_rows n (length xi) TX TY V \<and> (\<forall>r p. n * n \<le> r \<longrightarrow> entry V r p = 0)"
    and "\<exists>V. gradx J \<lparr>num_shape_functions = N\<rparr> xi eta = Inr V \<and> shape V = (N, length xi) \<and>
           tensor_rows n (length xi) D1X TY V \<and> (\<forall>r p. n * n \<le> r \<longrightarrow> entry V r p = 0)"
    and "\<exists>V. grady J \<lparr>num_shape_functions = N\<rparr> xi eta = Inr V \<and> shape V = (N, length xi) \<and>
           tensor_rows n (length xi) TX D1Y V \<and> (\<forall>r p. n * n \<le> r \<longrightarrow> entry V r p = 0)"
    and "\<exists>V. gradxx J \<lparr>num_shape_functions = N\<rparr> xi eta = Inr V \<and> shape V = (N, length xi) \<and>
           tensor_rows n (length xi) D2X TY V \<and> (\<forall>r p. n * n \<le> r \<longrightarrow> entry V r p = 0)"
    and "\<exists>V. gradxy J \<lparr>num_shape_functions = N\<rparr> xi eta = Inr V \<and> shape V = (N, length xi) \<and>
           tensor_rows n (length xi) D1X D1Y V \<and> (\<forall>r p. n * n \<le> r \<longrightarrow> entry V r p = 0)"
    and "\<exists>V. gradyy J \<lparr>num_shape_functions = N\<rparr> xi eta = Inr V \<and> shape V = (N, length xi) \<and>
           tensor_rows n (length xi) TX D2Y V \<and> (\<forall>r p. n * n \<le> r \<longrightarrow> entry V r p = 0)"
proof -
  have le: "n * n \<le> N"
    by (simp add: n_def isqrt_square_le)
  note shapes = test_rows_shape d1test_rows_shape d2test_rows_shape
  show "\<exists>V. value_at J \<lparr>num_shape_functions = N\<rparr> xi eta = Inr V \<and> shape V = (N, length xi) \<and>
           tensor_rows n (length xi) TX TY V \<and> (\<forall>r p. n * n \<le> r \<longrightarrow> entry V r p = 0)"
    using assemble_zeros[of TX n TY "length xi" N] le assms(8)
    by (simp add: value_at_def Let_def test_fcnx_result test_fcny_result n_def[symmetric]
        TX_def[symmetric] TY_def[symmetric]) (simp add: TX_def TY_def shapes)
  show "\<exists>V. gradx J \<lparr>num_shape_functions = N\<rparr> xi eta = Inr V \<and> shape V = (N, length xi) \<and>
           tensor_rows n (length xi) D1X TY V \<and> (\<forall>r p. n * n \<le> r \<longrightarrow> entry V r p = 0)"
    using assemble_zeros[of D1X n TY "length xi" N] le assms(8)
    by (simp add: gradx_def Let_def dtest_fcn_result test_fcny_result n_def[symmetric]
        D1X_def[symmetric] TY_def[symmetric]) (simp add: D1X_def TY_def shapes)
  show "\<exists>V. grady J \<lparr>num_shape_functions = N\<rparr> xi eta = Inr V \<and> shape V = (N, length xi) \<and>
           tensor_rows n (length xi) TX D1Y V \<and> (\<forall>r p. n * n \<le> r \<longrightarrow> entry V r p = 0)"
    using assemble_zeros[of TX n D1Y "length xi" N] le assms(8)
    by (simp add: grady_def Let_def dtest_fcn_result test_fcnx_result n_def[symmetric]
        D1Y_def[symmetric] TX_def[symmetric]) (simp add: D1Y_def TX_def shapes)
  show "\<exists>V. gradxx J \<lparr>num_shape_functions = N\<rparr> xi eta = Inr V \<and> shape V = (N, length xi) \<and>
           tensor_rows n (length xi) D2X TY V \<and> (\<forall>r p. n * n \<le> r \<longrightarrow> entry V r p = 0)"
    using assemble_zeros[of D2X n TY "length xi" N] le assms(8)
    by (simp add: gradxx_def Let_def dtest_fcn_result test_fcny_result n_def[symmetric]
        D2X_def[symmetric] TY_def[symmetric]) (simp add: D2X_def TY_def shapes)
  show "\<exists>V. gradxy J \<lparr>num_shape_functions = N\<rparr> xi eta = Inr V \<and> shape V = (N, length xi) \<and>
           tensor_rows n (length xi) D1X D1Y V \<and> (\<forall>r p. n * n \<le> r \<longrightarrow> entry V r p = 0)"
    using assemble_zeros[of D1X n D1Y "length xi" N] le assms(8)
    by (simp add: gradxy_def Let_def dtest_fcn_result n_def[symmetric]
        D1X_def[symmetric] D1Y_def[symmetric]) (simp add: D1X_def D1Y_def shapes)
  show "\<exists>V. gradyy J \<lparr>num_shape_functions = N\<rparr> xi eta = Inr V \<and> shape V = (N, length xi) \<and>
           tensor_rows n (length xi) TX D2Y V \<and> (\<forall>r p. n * n \<le> r \<longrightarrow> entry V r p = 0)"
    using assemble_zeros[of TX n D2Y "length xi" N] le assms(8)
    by (simp add: gradyy_def Let_def dtest_fcn_result test_fcnx_result n_def[symmetric]
        D2Y_def[symmetric] TX_def[symmetric]) (simp add: D2Y_def TX_def shapes)
qed

text \<open>
  C5. For a perfect square \<open>N = n * n\<close> and coordinate vectors \<open>xi\<close>, \<open>eta\<close> of one
  length \<open>P\<close>, \<^verbatim>\<open>value\<close> returns an array of shape \<open>(N, P)\<close> with
  \<open>value[i * n + j, p] = test_x[i, p] * test_y[j, p]\<close>, and \<^verbatim>\<open>gradx\<close>, \<^verbatim>\<open>grady\<close>,
  \<^verbatim>\<open>gradxx\<close>, \<^verbatim>\<open>gradxy\<close>, \<^verbatim>\<open>gradyy\<close> are formed in the same way with the factor in
  \<open>x\<close>, in \<open>y\<close> or both replaced by the first or second derivative that \<^verbatim>\<open>dtest_fcn\<close>
  returns.
\<close>

theorem evaluators_are_tensor_products:
  assumes "length xi = P" and "length eta = P"
  shows "\<exists>TX TY DX DY.
      test_fcnx J n xi = Inr TX \<and> test_fcny J n eta = Inr TY \<and>
      dtest_fcn J n xi = Inr DX \<and> dtest_fcn J n eta = Inr DY \<and>
      (\<exists>V. value_at J \<lparr>num_shape_functions = n * n\<rparr> xi eta = Inr V \<and>
           shape V = (n * n, P) \<and> tensor_rows n P TX TY V) \<and>
      (\<exists>V. gradx J \<lparr>num_shape_functions = n * n\<rparr> xi eta = Inr V \<and>
           shape V = (n * n, P) \<and> tensor_rows n P (fst DX) TY V) \<and>
      (\<exists>V. grady J \<lparr>num_shape_functions = n * n\<rparr> xi eta = Inr V \<and>
           shape V = (n * n, P) \<and> tensor_rows n P TX (fst DY) V) \<and>
      (\<exists>V. gradxx J \<lparr>num_shape_functions = n * n\<rparr> xi eta = Inr V \<and>
           shape V = (n * n, P) \<and> tensor_rows n P (snd DX) TY V) \<and>
      (\<exists>V. gradxy J \<lparr>num_shape_functions = n * n\<rparr> xi eta = Inr V \<and>
           shape V = (n * n, P) \<and> tensor_rows n P (fst DX) (fst DY) V) \<and>
      (\<exists>V. gradyy J \<lparr>num_shape_functions = n * n\<rparr> xi eta = Inr V \<and>
           shape V = (n * n, P) \<and> tensor_rows n P TX (snd DY) V)"
proof -
  define TX where "TX = map (\<lambda>k. test_row J k xi) [1..int n]"
  define TY where "TY = map (\<lambda>k. test_row J k eta) [1..int n]"
  define DX where "DX = (map (\<lambda>k. d1test_row J k xi) [1..int n],
                         map (\<lambda>k. d2test_row J k xi) [1..int n])"
  define DY where "DY = (map (\<lambda>k. d1test_row J k eta) [1..int n],
                         map (\<lambda>k. d2test_row J k eta) [1..int n])"
  have len: "length eta = length xi"
    using assms by simp
  note r = evaluators_result[OF len, of J "n * n", unfolded isqrt_square, unfolded assms(1)]
  have rows: "test_fcnx J n xi = Inr TX" "test_fcny J n eta = Inr TY"
    "dtest_fcn J n xi = Inr DX" "dtest_fcn J n eta = Inr DY"
    by (simp_all add: test_fcnx_result test_fcny_result dtest_fcn_result TX_def TY_def DX_def DY_def)
  have v: "\<exists>V. value_at J \<lparr>num_shape_functions = n * n\<rparr> xi eta = Inr V \<and>
           shape V = (n * n, P) \<and> tensor_rows n P TX TY V"
    using r(1) unfolding TX_def TY_def by blast
  have gx: "\<exists>V. gradx J \<lparr>num_shape_functions = n * n\<rparr> xi eta = Inr V \<and>
           shape V = (n * n, P) \<and> tensor_rows n P (fst DX) TY V"
    using r(2) unfolding DX_def TY_def fst_conv by blast
  have gy: "\<exists>V. grady J \<lparr>num_shape_functions = n * n\<rparr> xi eta = Inr V \<and>
           shape V = (n * n, P) \<and> tensor_rows n P TX (fst DY) V"
    using r(3) unfolding TX_def DY_def fst_conv by blast
  have gxx: "\<exists>V. gradxx J \<lparr>num_shape_functions = n * n\<rparr> xi eta = Inr V \<and>
           shape V = (n * n, P) \<and> tensor_rows n P (snd DX) TY V"
    using r(4) unfolding DX_def TY_def snd_conv by blast
  have gxy: "\<exists>V. gradxy J \<lparr>num_shape_functions = n * n\<rparr> xi eta = Inr V \<and>
           shape V = (n * n, P) \<and> tensor_rows n P (fst DX) (fst DY) V"
    using r(5) unfolding DX_def DY_def fst_conv by blast
  have gyy: "\<exists>V. gradyy J \<lparr>num_shape_functions = n * n\<rparr> xi eta = Inr V \<and>
           shape V = (n * n, P) \<and> tensor_rows n P TX (snd DY) V"
    using r(6) unfolding TX_def DY_def snd_conv by blast
  show ?thesis
    by (rule exI[of _ TX], rule exI[of _ TY], rule exI[of _ DX], rule exI[of _ DY])
       (simp only: rows v gx gy gxx gxy gyy simp_thms)
qed

text \<open>Four shape functions at two points, with the Jacobi polynomials themselves.\<close>

lemma test_rows_example:
  "test_fcnx jacobi_poly 2 [0, 1 / 2] = Inr [[- 2, - 3 / 2], [0, - 3 / 2]]"
  "test_fcny jacobi_poly 2 [1 / 2, 0] = Inr [[- 3 / 2, - 2], [- 3 / 2, 0]]"
  "dtest_fcn jacobi_poly 2 [0, 1 / 2] = Inr ([[0, 2], [- 4, - 1]], [[4, 4], [0, 12]])"
  by code_simp+

theorem evaluators_are_tensor_products_witness:
  "(\<exists>V. value_at jacobi_poly \<lparr>num_shape_functions = 4\<rparr> [0, 1 / 2] [1 / 2, 0] = Inr V \<and>
        shape V = (4, 2) \<and> entry V 2 1 = (- 3 / 2) * (- 2) \<and> entry V 1 0 = (- 2) * (- 3 / 2)) \<and>
   (\<exists>V. gradx jacobi_poly \<lparr>num_shape_functions = 4\<rparr> [0, 1 / 2] [1 / 2, 0] = Inr V \<and>
        shape V = (4, 2) \<and> entry V 1 0 = 0 * (- 3 / 2) \<and> entry V 2 0 = (- 4) * (- 3 / 2)) \<and>
   (\<exists>V. gradxx jacobi_poly \<lparr>num_shape_functions = 4\<rparr> [0, 1 / 2] [1 / 2, 0] = Inr V \<and>
        shape V = (4, 2) \<and> entry V 3 1 = 12 * 0)"
proof -
  from evaluators_are_tensor_products[of "[0, 1 / 2]" 2 "[1 / 2, 0]" jacobi_poly 2]
  obtain TX TY DX DY where rows: "test_fcnx jacobi_poly 2 [0, 1 / 2] = Inr TX"
      "test_fcny jacobi_poly 2 [1 / 2, 0] = Inr TY" "dtest_fcn jacobi_poly 2 [0, 1 / 2] = Inr DX"
    and v: "\<exists>V. value_at jacobi_poly \<lparr>num_shape_functions = 2 * 2\<rparr> [0, 1 / 2] [1 / 2, 0] = Inr V \<and>
           shape V = (2 * 2, 2) \<and> tensor_rows 2 2 TX TY V"
    and gx: "\<exists>V. gradx jacobi_poly \<lparr>num_shape_functions = 2 * 2\<rparr> [0, 1 / 2] [1 / 2, 0] = Inr V \<and>
           shape V = (2 * 2, 2) \<and> tensor_rows 2 2 (fst DX) TY V"
    and gxx: "\<exists>V. gradxx jacobi_poly \<lparr>num_shape_functions = 2 * 2\<rparr> [0, 1 / 2] [1 / 2, 0] = Inr V \<and>
           shape V = (2 * 2, 2) \<and> tensor_rows 2 2 (snd DX) TY V"
    by auto
  have TX: "TX = [[- 2, - 3 / 2], [0, - 3 / 2]]" and TY: "TY = [[- 3 / 2, - 2], [- 3 / 2, 0]]"
    and DX: "DX = ([[0, 2], [- 4, - 1]], [[4, 4], [0, 12]])"
    using rows by (simp_all add: test_rows_example)
  have pick: "entry V (i * 2 + j) p = fx ! i ! p * fy ! j ! p"
    if "tensor_rows 2 2 fx fy V" and "i < 2" and "j < 2" and "p < 2" for V fx fy i j p
    using that unfolding tensor_rows_iff by blast
  from v obtain V where V: "value_at jacobi_poly \<lparr>num_shape_functions = 2 * 2\<rparr> [0, 1 / 2] [1 / 2, 0] = Inr V"
      "shape V = (2 * 2, 2)" "tensor_rows 2 2 TX TY V"
    by blast
  have "entry V 2 1 = (- 3 / 2) * (- 2)" "entry V 1 0 = (- 2) * (- 3 / 2)"
    using pick[OF V(3), of 1 0 1] pick[OF V(3), of 0 1 0] by (simp_all add: TX TY)
  with V have first: "\<exists>V. value_at jacobi_poly \<lparr>num_shape_functions = 4\<rparr> [0, 1 / 2] [1 / 2, 0] = Inr V \<and>
        shape V = (4, 2) \<and> entry V 2 1 = (- 3 / 2) * (- 2) \<and> entry V 1 0 = (- 2) * (- 3 / 2)"
    by simp
  from gx obtain G where G: "gradx jacobi_poly \<lparr>num_shape_functions = 2 * 2\<rparr> [0, 1 / 2] [1 / 2, 0] = Inr G"
      "shape G = (2 * 2, 2)" "tensor_rows 2 2 (fst DX) TY G"
    by blast
  have "entry G 1 0 = 0 * (- 3 / 2)" "entry G 2 0 = (- 4) * (- 3 / 2)"
    using pick[OF G(3), of 0 1 0] pick[OF G(3), of 1 0 0] by (simp_all add: DX TY)
  with G have second: "\<exists>V. gradx jacobi_poly \<lparr>num_shape_functions = 4\<rparr> [0, 1 / 2] [1 / 2, 0] = Inr V \<and>
        shape V = (4, 2) \<and> entry V 1 0 = 0 * (- 3 / 2) \<and> entry V 2 0 = (- 4) * (- 3 / 2)"
    by simp
  from gxx obtain H where H: "gradxx jacobi_poly \<lparr>num_shape_functions = 2 * 2\<rparr> [0, 1 / 2] [1 / 2, 0] = Inr H"
      "shape H = (2 * 2, 2)" "tensor_rows 2 2 (snd DX) TY H"
    by blast
  have "entry H 3 1 = 12 * 0"
    using pick[OF H(3), of 1 1 1] by (simp add: DX TY)
  with H have third: "\<exists>V. gradxx jacobi_poly \<lparr>num_shape_functions = 4\<rparr> [0, 1 / 2] [1 / 2, 0] = Inr V \<and>
        shape V = (4, 2) \<and> entry V 3 1 = 12 * 0"
    by simp
  from first second third show ?thesis
    by blast
qed






end
